theory Spec2Isabelle
  imports
    Complex_Main
    "HOL-Library.Product_Lexorder"
    "HOL-Library.Multiset"
begin

section \<open>Taxfolio: the upload service and the lot-matching engine\<close>

text \<open>
  The development embeds \<^verbatim>\<open>backend/src/services/upload_service.go\<close> (the per-user,
  cache-backed service and the earlier single-result variant kept in the same file).
  The packages \<^verbatim>\<open>models\<close>, \<^verbatim>\<open>parsers\<close>, \<^verbatim>\<open>processors\<close> and \<^verbatim>\<open>database\<close> are used by the
  service but their code is not part of the sources at hand: their types are modelled
  from the data model of the specification, the processors enter the service as function
  fields of the service record, and the lot matchers of sections 4.2 and 4.3 of the
  specification are modelled separately, each marked as such.
\<close>

subsection \<open>Go values: slices that may be nil, maps that may be nil\<close>

text \<open>
  A Go slice is either \<^verbatim>\<open>nil\<close> or a (possibly empty) sequence. \<^verbatim>\<open>len\<close> is 0 for both,
  \<^verbatim>\<open>range\<close> visits the elements, and \<^verbatim>\<open>append\<close> to either gives a non-nil slice.
\<close>

datatype 'a slice = NilSlice | Slice "'a list"

fun elems :: "'a slice \<Rightarrow> 'a list" where
  "elems NilSlice = []"
| "elems (Slice xs) = xs"

definition len :: "'a slice \<Rightarrow> nat" where
  "len s = length (elems s)"

definition append_slice :: "'a slice \<Rightarrow> 'a \<Rightarrow> 'a slice" where
  "append_slice s x = Slice (elems s @ [x])"


datatype ('k, 'v) gomap = NilMap | GoMap "('k \<times> 'v) list"

subsection \<open>The data model\<close>

text \<open>
  Modelled from the spec: the declarations of package \<^verbatim>\<open>models\<close> are missing. The fields of
  \<^verbatim>\<open>ProcessedTransaction\<close> are the ones the service scans from and inserts into the table
  \<^verbatim>\<open>processed_transactions\<close>; a calendar date is a day number, a decimal is an exact
  rational, an identifier is an integer.
\<close>

type_synonym date = int
type_synonym decimal = rat

record ProcessedTransaction =
  ID :: int
  Date :: date
  ProductName :: string
  ISIN :: string
  Quantity :: decimal
  OriginalQuantity :: decimal
  Price :: decimal
  OrderType :: string
  TransactionType :: string
  Description :: string
  Amount :: decimal
  Currency :: string
  Commission :: decimal
  OrderID :: string
  ExchangeRate :: decimal
  AmountEUR :: decimal
  CountryCode :: string

text \<open>Modelled from the spec (section 3): one row of the uploaded file as parsed.\<close>

type_synonym RawTransaction = "string list"

text \<open>
  Modelled from the spec (section 3): an open stock lot and a realised disposal. The flag
  \<open>sd_oversold\<close> is the mark section 4.2 requires on a disposal taken from the implicit
  zero-cost lot.
\<close>

record PurchaseLot =
  lot_identity :: string
  lot_acquisitionDate :: date
  lot_quantityRemaining :: decimal
  lot_unitCostEUR :: decimal
  lot_currency :: string

record SaleDetail =
  sd_identity :: string
  sd_saleDate :: date
  sd_acquisitionDate :: date
  sd_quantity :: decimal
  sd_proceedsEUR :: decimal
  sd_costBasisEUR :: decimal
  sd_commissionEUR :: decimal
  sd_gainEUR :: decimal
  sd_holdingPeriodDays :: int
  sd_oversold :: bool

datatype ContractType = Call | Put

datatype Direction = Long | Short

datatype CloseState = Sold | Assigned | Exercised | Expired

record OptionContract =
  oc_identity :: string
  oc_underlying :: string
  oc_contractType :: ContractType
  oc_strike :: decimal
  oc_expiry :: date

record OptionHolding =
  oh_contract :: OptionContract
  oh_direction :: Direction
  oh_openDate :: date
  oh_quantityRemaining :: decimal
  oh_unitPremiumEUR :: decimal

record OptionSaleDetail =
  osd_contract :: OptionContract
  osd_direction :: Direction
  osd_state :: CloseState
  osd_openDate :: date
  osd_closeDate :: date
  osd_quantity :: decimal
  osd_openPremiumEUR :: decimal
  osd_closePremiumEUR :: decimal

record CashMovement =
  cm_date :: date
  cm_currency :: string
  cm_amount :: decimal
  cm_description :: string

record DividendTotals =
  dt_gross :: decimal
  dt_withheld :: decimal
  dt_net :: decimal

type_synonym DividendTaxResult = "(string \<times> int, DividendTotals) gomap"

record UploadResult =
  StockSaleDetails :: "SaleDetail slice"
  StockHoldings :: "PurchaseLot slice"
  OptionSaleDetails :: "OptionSaleDetail slice"
  OptionHoldings :: "OptionHolding slice"
  CashMovements :: "CashMovement slice"
  DividendTransactionsList :: "ProcessedTransaction slice"

subsection \<open>Strings\<close>

text \<open>
  \<^verbatim>\<open>strings.ToLower\<close> on the ASCII range: the bytes \<^verbatim>\<open>A\<close> to \<^verbatim>\<open>Z\<close> move to \<^verbatim>\<open>a\<close> to \<^verbatim>\<open>z\<close>,
  every other byte is kept (order types are ASCII tags).
\<close>

definition toLowerByte :: "char \<Rightarrow> char" where
  "toLowerByte c =
     (let n = (of_char c :: nat)
      in if 65 \<le> n \<and> n \<le> 90 then char_of (n + 32) else c)"

definition ToLower :: "string \<Rightarrow> string" where
  "ToLower s = map toLowerByte s"

subsection \<open>Errors\<close>

text \<open>
  Every \<^verbatim>\<open>fmt.Errorf\<close> of the service is a constructor; the string is the message of the
  wrapped cause, the integer the user id printed into the message.
\<close>

datatype error =
    ErrParsingFailed string
  | ErrProcessingRaw int string
  | ErrBeginTx string
  | ErrPrepareInsert string
  | ErrInsert string string
  | ErrCommit string
  | ErrQuery int string
  | ErrScan int string
  | ErrRows int string

subsection \<open>The table of processed transactions\<close>

text \<open>
  A committed row of \<^verbatim>\<open>processed_transactions\<close>: the owner and the transaction, whose \<open>ID\<close>
  is the key the database gave the row. The database is the list of committed rows in
  storage order.
\<close>

record stored_row =
  user_id :: int
  row_tx :: ProcessedTransaction

type_synonym database = "stored_row list"

text \<open>
  The ways a read can fail, chosen by the environment: the query itself, the scan of the
  row at a position of the result set, or the iteration error reported at the end.
\<close>

datatype read_fault = QueryFails string | ScanFails nat string | RowsErrFails string

text \<open>
  The result set of the query: the rows of the user,
  \<^verbatim>\<open>ORDER BY date ASC, id ASC\<close>.
\<close>

definition orderKey :: "ProcessedTransaction \<Rightarrow> date \<times> int" where
  "orderKey tx = (Date tx, ID tx)"

definition queryRows :: "database \<Rightarrow> int \<Rightarrow> ProcessedTransaction list" where
  "queryRows db userID =
     sort_key orderKey (map row_tx (filter (\<lambda>r. user_id r = userID) db))"

text \<open>The loop over \<^verbatim>\<open>rows.Next()\<close>: scan a row, append it; a failed scan returns at once.\<close>

fun scanRows ::
  "read_fault option \<Rightarrow> int \<Rightarrow> nat \<Rightarrow> ProcessedTransaction slice \<Rightarrow>
   ProcessedTransaction list \<Rightarrow> error + ProcessedTransaction slice" where
  "scanRows fault userID i transactions [] = Inr transactions"
| "scanRows fault userID i transactions (tx # rest) =
     (case fault of
        Some (ScanFails j msg) \<Rightarrow>
          if j = i then Inl (ErrScan userID msg)
          else scanRows fault userID (Suc i) (append_slice transactions tx) rest
      | _ \<Rightarrow> scanRows fault userID (Suc i) (append_slice transactions tx) rest)"

definition fetchUserProcessedTransactions ::
  "read_fault option \<Rightarrow> database \<Rightarrow> int \<Rightarrow> error + ProcessedTransaction slice" where
  "fetchUserProcessedTransactions fault db userID =
     (case fault of
        Some (QueryFails msg) \<Rightarrow> Inl (ErrQuery userID msg)
      | _ \<Rightarrow>
        (case scanRows fault userID 0 NilSlice (queryRows db userID) of
           Inl e \<Rightarrow> Inl e
         | Inr transactions \<Rightarrow>
           (case fault of
              Some (RowsErrFails msg) \<Rightarrow> Inl (ErrRows userID msg)
            | _ \<Rightarrow> Inr transactions)))"

subsection \<open>The dividend transactions of a sequence\<close>

text \<open>
  The loop of \<^verbatim>\<open>ProcessUpload\<close>, \<^verbatim>\<open>GetLatestUploadResult\<close> and \<^verbatim>\<open>GetDividendTransactions\<close>:
  the accumulator starts nil (\<^verbatim>\<open>var\<close>) or empty (\<^verbatim>\<open>[]T{}\<close>) and grows by \<^verbatim>\<open>append\<close>.
\<close>

definition isDividendOrTax :: "ProcessedTransaction \<Rightarrow> bool" where
  "isDividendOrTax tx =
     (let orderTypeLower = ToLower (OrderType tx)
      in orderTypeLower = ''dividend'' \<or> orderTypeLower = ''dividendtax'')"

fun collectDividends ::
  "ProcessedTransaction slice \<Rightarrow> ProcessedTransaction list \<Rightarrow> ProcessedTransaction slice" where
  "collectDividends acc [] = acc"
| "collectDividends acc (tx # rest) =
     (if isDividendOrTax tx then collectDividends (append_slice acc tx) rest
      else collectDividends acc rest)"



subsection \<open>The report cache\<close>

text \<open>
  The cache holds Go values of any type; a getter asserts the type it expects and treats
  an entry of another type as a miss. \<^verbatim>\<open>fmt.Sprintf(format, userID)\<close> is the pair of the
  format and the number: the seven formats are different and each ends in the number, so
  two keys are equal exactly when format and user are.
\<close>

datatype cached =
    CachedUploadResult UploadResult
  | CachedSaleDetails "SaleDetail slice"
  | CachedPurchaseLots "PurchaseLot slice"
  | CachedOptionHoldings "OptionHolding slice"
  | CachedOptionSaleDetails "OptionSaleDetail slice"
  | CachedDividendTaxResult DividendTaxResult
  | CachedTransactions "ProcessedTransaction slice"

type_synonym cache_key = "string \<times> int"
type_synonym reportCache = "cache_key \<Rightarrow> cached option"

definition Sprintf :: "string \<Rightarrow> int \<Rightarrow> cache_key" where
  "Sprintf format userID = (format, userID)"

definition ckLatestUploadResult :: string where
  "ckLatestUploadResult = ''latest_upload_result_user_%d''"

definition ckStockSales :: string where
  "ckStockSales = ''stock_sales_user_%d''"

definition ckOptionSales :: string where
  "ckOptionSales = ''option_sales_user_%d''"

definition ckDividendSummary :: string where
  "ckDividendSummary = ''dividend_summary_user_%d''"

definition ckStockHoldings :: string where
  "ckStockHoldings = ''stock_holdings_user_%d''"

definition ckOptionHoldings :: string where
  "ckOptionHoldings = ''option_holdings_user_%d''"

definition ckDividendTxns :: string where
  "ckDividendTxns = ''dividend_txns_user_%d''"

text \<open>\<^verbatim>\<open>Get\<close> followed by the type assertion of each getter.\<close>

fun asUploadResult :: "cached option \<Rightarrow> UploadResult option" where
  "asUploadResult (Some (CachedUploadResult r)) = Some r"
| "asUploadResult _ = None"

fun asSaleDetails :: "cached option \<Rightarrow> SaleDetail slice option" where
  "asSaleDetails (Some (CachedSaleDetails r)) = Some r"
| "asSaleDetails _ = None"

fun asPurchaseLots :: "cached option \<Rightarrow> PurchaseLot slice option" where
  "asPurchaseLots (Some (CachedPurchaseLots r)) = Some r"
| "asPurchaseLots _ = None"

fun asOptionHoldings :: "cached option \<Rightarrow> OptionHolding slice option" where
  "asOptionHoldings (Some (CachedOptionHoldings r)) = Some r"
| "asOptionHoldings _ = None"

fun asOptionSaleDetails :: "cached option \<Rightarrow> OptionSaleDetail slice option" where
  "asOptionSaleDetails (Some (CachedOptionSaleDetails r)) = Some r"
| "asOptionSaleDetails _ = None"

fun asDividendTaxResult :: "cached option \<Rightarrow> DividendTaxResult option" where
  "asDividendTaxResult (Some (CachedDividendTaxResult r)) = Some r"
| "asDividendTaxResult _ = None"

fun asTransactions :: "cached option \<Rightarrow> ProcessedTransaction slice option" where
  "asTransactions (Some (CachedTransactions r)) = Some r"
| "asTransactions _ = None"

subsection \<open>The service and its collaborators\<close>

text \<open>
  The collaborators are interfaces whose implementations are not in the sources; each is a
  function field. The parser and the normalizer return a value or the message of their
  error; the processors return no error, as their call sites show.
\<close>

record uploadServiceImpl =
  csvParser :: "string \<Rightarrow> string + RawTransaction slice"
  transactionProcessor :: "RawTransaction slice \<Rightarrow> string + ProcessedTransaction slice"
  dividendProcessor :: "ProcessedTransaction slice \<Rightarrow> DividendTaxResult"
  stockProcessor :: "ProcessedTransaction slice \<Rightarrow> SaleDetail slice \<times> PurchaseLot slice"
  optionProcessor ::
    "ProcessedTransaction slice \<Rightarrow> OptionSaleDetail slice \<times> OptionHolding slice"
  cashMovementProcessor :: "ProcessedTransaction slice \<Rightarrow> CashMovement slice"

definition emptyUploadResult :: UploadResult where
  "emptyUploadResult =
     \<lparr>StockSaleDetails = Slice [], StockHoldings = Slice [], OptionSaleDetails = Slice [],
      OptionHoldings = Slice [], CashMovements = Slice [],
      DividendTransactionsList = Slice []\<rparr>"

subsection \<open>Persisting a batch\<close>

text \<open>
  The ways the database transaction of \<^verbatim>\<open>ProcessUpload\<close> can fail, chosen by the
  environment: \<^verbatim>\<open>Begin\<close>, \<^verbatim>\<open>Prepare\<close>, the \<^verbatim>\<open>Exec\<close> of the insert at a position of the batch,
  \<^verbatim>\<open>Commit\<close>.
\<close>

record write_faults =
  begin_fault :: "string option"
  prepare_fault :: "string option"
  exec_fault :: "(nat \<times> string) option"
  commit_fault :: "string option"

text \<open>
  The key of a new row: larger than every key of the table (the schema is not in the
  sources; the statement inserts no id, so the database assigns it).
\<close>

definition nextID :: "database \<Rightarrow> int" where
  "nextID db = 1 + foldr (\<lambda>r m. max (ID (row_tx r)) m) db 0"

text \<open>
  The loop of inserts inside the open transaction: the rows written so far are pending,
  and the first failing \<^verbatim>\<open>Exec\<close> returns its error.
\<close>

fun execInserts ::
  "write_faults \<Rightarrow> int \<Rightarrow> nat \<Rightarrow> int \<Rightarrow> stored_row list \<Rightarrow>
   ProcessedTransaction list \<Rightarrow> error + stored_row list" where
  "execInserts faults userID i newID pending [] = Inr pending"
| "execInserts faults userID i newID pending (tx # rest) =
     (case exec_fault faults of
        Some (j, msg) \<Rightarrow>
          if j = i then Inl (ErrInsert (OrderID tx) msg)
          else execInserts faults userID (Suc i) (newID + 1)
                 (pending @ [\<lparr>user_id = userID, row_tx = tx\<lparr>ID := newID\<rparr>\<rparr>]) rest
      | None \<Rightarrow>
          execInserts faults userID (Suc i) (newID + 1)
            (pending @ [\<lparr>user_id = userID, row_tx = tx\<lparr>ID := newID\<rparr>\<rparr>]) rest)"

text \<open>
  Lines 143 to 186 of \<^verbatim>\<open>ProcessUpload\<close>. Pending rows reach the table only at a successful
  \<^verbatim>\<open>Commit\<close>; on every error return \<^verbatim>\<open>committed\<close> is still false and the deferred function
  rolls the transaction back, which leaves the table as it was.
\<close>

definition persistBatch ::
  "write_faults \<Rightarrow> database \<Rightarrow> int \<Rightarrow> ProcessedTransaction list \<Rightarrow>
   (error + unit) \<times> database" where
  "persistBatch faults db userID processedTransactions =
     (case begin_fault faults of
        Some msg \<Rightarrow> (Inl (ErrBeginTx msg), db)
      | None \<Rightarrow>
        (case prepare_fault faults of
           Some msg \<Rightarrow> (Inl (ErrPrepareInsert msg), db)
         | None \<Rightarrow>
           (case execInserts faults userID 0 (nextID db) [] processedTransactions of
              Inl err \<Rightarrow> (Inl err, db)
            | Inr pending \<Rightarrow>
              (case commit_fault faults of
                 Some msg \<Rightarrow> (Inl (ErrCommit msg), db)
               | None \<Rightarrow> (Inr (), db @ pending)))))"

subsection \<open>The cache-backed service\<close>

definition keysToDelete :: "int \<Rightarrow> cache_key list" where
  "keysToDelete userID =
     [Sprintf ckLatestUploadResult userID, Sprintf ckStockSales userID,
      Sprintf ckOptionSales userID, Sprintf ckDividendSummary userID,
      Sprintf ckStockHoldings userID, Sprintf ckOptionHoldings userID,
      Sprintf ckDividendTxns userID]"

definition InvalidateUserCache :: "reportCache \<Rightarrow> int \<Rightarrow> reportCache" where
  "InvalidateUserCache cache userID =
     foldl (\<lambda>c key. c(key := None)) cache (keysToDelete userID)"

definition ProcessUpload ::
  "uploadServiceImpl \<Rightarrow> write_faults \<Rightarrow> string \<Rightarrow> int \<Rightarrow> database \<Rightarrow> reportCache \<Rightarrow>
   (error + UploadResult) \<times> database \<times> reportCache" where
  "ProcessUpload s faults fileReader userID db cache =
     (case csvParser s fileReader of
        Inl err \<Rightarrow> (Inl (ErrParsingFailed err), db, cache)
      | Inr rawTransactions \<Rightarrow>
        if len rawTransactions = 0 then (Inr emptyUploadResult, db, cache)
        else
          (case transactionProcessor s rawTransactions of
             Inl err \<Rightarrow> (Inl (ErrProcessingRaw userID err), db, cache)
           | Inr processedTransactions \<Rightarrow>
             if len processedTransactions = 0 then (Inr emptyUploadResult, db, cache)
             else
               (case persistBatch faults db userID (elems processedTransactions) of
                  (Inl err, db') \<Rightarrow> (Inl err, db', cache)
                | (Inr _, db') \<Rightarrow>
                  (let cache' = InvalidateUserCache cache userID;
                       (stockSaleDetailsBatch, stockHoldingsBatch) =
                          stockProcessor s processedTransactions;
                       (optionSaleDetailsBatch, optionHoldingsBatch) =
                          optionProcessor s processedTransactions;
                       cashMovementsBatch = cashMovementProcessor s processedTransactions;
                       dividendTransactionsListBatch =
                          collectDividends NilSlice (elems processedTransactions)
                   in (Inr \<lparr>StockSaleDetails = stockSaleDetailsBatch,
                            StockHoldings = stockHoldingsBatch,
                            OptionSaleDetails = optionSaleDetailsBatch,
                            OptionHoldings = optionHoldingsBatch,
                            CashMovements = cashMovementsBatch,
                            DividendTransactionsList = dividendTransactionsListBatch\<rparr>,
                       db', cache')))))"

definition GetLatestUploadResult ::
  "uploadServiceImpl \<Rightarrow> read_fault option \<Rightarrow> database \<Rightarrow> reportCache \<Rightarrow> int \<Rightarrow>
   (error + UploadResult) \<times> reportCache" where
  "GetLatestUploadResult s fault db cache userID =
     (let cacheKey = Sprintf ckLatestUploadResult userID
      in case asUploadResult (cache cacheKey) of
           Some result \<Rightarrow> (Inr result, cache)
         | None \<Rightarrow>
           (case fetchUserProcessedTransactions fault db userID of
              Inl err \<Rightarrow> (Inl err, cache)
            | Inr userTransactions \<Rightarrow>
              if len userTransactions = 0
              then (Inr emptyUploadResult,
                    cache(cacheKey \<mapsto> CachedUploadResult emptyUploadResult))
              else
                (let (stockSaleDetails, stockHoldings) = stockProcessor s userTransactions;
                     (optionSaleDetails, optionHoldings) = optionProcessor s userTransactions;
                     cashMovements = cashMovementProcessor s userTransactions;
                     dividendTransactionsList =
                        collectDividends NilSlice (elems userTransactions);
                     uploadResult =
                       \<lparr>StockSaleDetails = stockSaleDetails,
                        StockHoldings = stockHoldings,
                        OptionSaleDetails = optionSaleDetails,
                        OptionHoldings = optionHoldings,
                        CashMovements = cashMovements,
                        DividendTransactionsList = dividendTransactionsList\<rparr>
                 in (Inr uploadResult, cache(cacheKey \<mapsto> CachedUploadResult uploadResult)))))"

definition GetDividendTaxSummary ::
  "uploadServiceImpl \<Rightarrow> read_fault option \<Rightarrow> database \<Rightarrow> reportCache \<Rightarrow> int \<Rightarrow>
   (error + DividendTaxResult) \<times> reportCache" where
  "GetDividendTaxSummary s fault db cache userID =
     (let cacheKey = Sprintf ckDividendSummary userID
      in case asDividendTaxResult (cache cacheKey) of
           Some summary \<Rightarrow> (Inr summary, cache)
         | None \<Rightarrow>
           (case fetchUserProcessedTransactions fault db userID of
              Inl err \<Rightarrow> (Inl err, cache)
            | Inr userTransactions \<Rightarrow>
              if len userTransactions = 0
              then (Inr (GoMap []), cache(cacheKey \<mapsto> CachedDividendTaxResult (GoMap [])))
              else
                (let summary = dividendProcessor s userTransactions
                 in (Inr summary, cache(cacheKey \<mapsto> CachedDividendTaxResult summary)))))"

definition GetStockSaleDetails ::
  "uploadServiceImpl \<Rightarrow> read_fault option \<Rightarrow> database \<Rightarrow> reportCache \<Rightarrow> int \<Rightarrow>
   (error + SaleDetail slice) \<times> reportCache" where
  "GetStockSaleDetails s fault db cache userID =
     (let cacheKey = Sprintf ckStockSales userID
      in case asSaleDetails (cache cacheKey) of
           Some sales \<Rightarrow> (Inr sales, cache)
         | None \<Rightarrow>
           (case fetchUserProcessedTransactions fault db userID of
              Inl err \<Rightarrow> (Inl err, cache)
            | Inr userTransactions \<Rightarrow>
              if len userTransactions = 0
              then (Inr (Slice []), cache(cacheKey \<mapsto> CachedSaleDetails (Slice [])))
              else
                (let (stockSaleDetails, _) = stockProcessor s userTransactions
                 in (Inr stockSaleDetails,
                     cache(cacheKey \<mapsto> CachedSaleDetails stockSaleDetails)))))"

definition GetDividendTransactions ::
  "uploadServiceImpl \<Rightarrow> read_fault option \<Rightarrow> database \<Rightarrow> reportCache \<Rightarrow> int \<Rightarrow>
   (error + ProcessedTransaction slice) \<times> reportCache" where
  "GetDividendTransactions s fault db cache userID =
     (let cacheKey = Sprintf ckDividendTxns userID
      in case asTransactions (cache cacheKey) of
           Some txns \<Rightarrow> (Inr txns, cache)
         | None \<Rightarrow>
           (case fetchUserProcessedTransactions fault db userID of
              Inl err \<Rightarrow> (Inl err, cache)
            | Inr userTransactions \<Rightarrow>
              (let dividends =
                     (if len userTransactions > 0
                      then collectDividends (Slice []) (elems userTransactions)
                      else Slice [])
               in (Inr dividends, cache(cacheKey \<mapsto> CachedTransactions dividends)))))"

definition GetStockHoldings ::
  "uploadServiceImpl \<Rightarrow> read_fault option \<Rightarrow> database \<Rightarrow> reportCache \<Rightarrow> int \<Rightarrow>
   (error + PurchaseLot slice) \<times> reportCache" where
  "GetStockHoldings s fault db cache userID =
     (let cacheKey = Sprintf ckStockHoldings userID
      in case asPurchaseLots (cache cacheKey) of
           Some holdings \<Rightarrow> (Inr holdings, cache)
         | None \<Rightarrow>
           (case fetchUserProcessedTransactions fault db userID of
              Inl err \<Rightarrow> (Inl err, cache)
            | Inr userTransactions \<Rightarrow>
              if len userTransactions = 0
              then (Inr (Slice []), cache(cacheKey \<mapsto> CachedPurchaseLots (Slice [])))
              else
                (let (_, stockHoldings) = stockProcessor s userTransactions
                 in (Inr stockHoldings,
                     cache(cacheKey \<mapsto> CachedPurchaseLots stockHoldings)))))"

definition GetOptionHoldings ::
  "uploadServiceImpl \<Rightarrow> read_fault option \<Rightarrow> database \<Rightarrow> reportCache \<Rightarrow> int \<Rightarrow>
   (error + OptionHolding slice) \<times> reportCache" where
  "GetOptionHoldings s fault db cache userID =
     (let cacheKey = Sprintf ckOptionHoldings userID
      in case asOptionHoldings (cache cacheKey) of
           Some holdings \<Rightarrow> (Inr holdings, cache)
         | None \<Rightarrow>
           (case fetchUserProcessedTransactions fault db userID of
              Inl err \<Rightarrow> (Inl err, cache)
            | Inr userTransactions \<Rightarrow>
              if len userTransactions = 0
              then (Inr (Slice []), cache(cacheKey \<mapsto> CachedOptionHoldings (Slice [])))
              else
                (let (_, optionHoldings) = optionProcessor s userTransactions
                 in (Inr optionHoldings,
                     cache(cacheKey \<mapsto> CachedOptionHoldings optionHoldings)))))"

definition GetOptionSaleDetails ::
  "uploadServiceImpl \<Rightarrow> read_fault option \<Rightarrow> database \<Rightarrow> reportCache \<Rightarrow> int \<Rightarrow>
   (error + OptionSaleDetail slice) \<times> reportCache" where
  "GetOptionSaleDetails s fault db cache userID =
     (let cacheKey = Sprintf ckOptionSales userID
      in case asOptionSaleDetails (cache cacheKey) of
           Some sales \<Rightarrow> (Inr sales, cache)
         | None \<Rightarrow>
           (case fetchUserProcessedTransactions fault db userID of
              Inl err \<Rightarrow> (Inl err, cache)
            | Inr userTransactions \<Rightarrow>
              if len userTransactions = 0
              then (Inr (Slice []), cache(cacheKey \<mapsto> CachedOptionSaleDetails (Slice [])))
              else
                (let (optionSaleDetails, _) = optionProcessor s userTransactions
                 in (Inr optionSaleDetails,
                     cache(cacheKey \<mapsto> CachedOptionSaleDetails optionSaleDetails)))))"

subsection \<open>The single-result variant of the service\<close>

text \<open>
  The second implementation in the file keeps the latest result and the transactions that
  produced it in the service itself. The type of \<^verbatim>\<open>models.DividendResult\<close> is not in the
  sources.
\<close>

typedecl DividendResult

record UploadResult_singleton =
  DividendResult_s :: DividendResult
  StockSaleDetails_s :: "SaleDetail slice"
  StockHoldings_s :: "PurchaseLot slice"
  OptionSaleDetails_s :: "OptionSaleDetail slice"
  OptionHoldings_s :: "OptionHolding slice"
  CashMovements_s :: "CashMovement slice"

record uploadServiceImpl_singleton =
  csvParser_s :: "string \<Rightarrow> string + RawTransaction slice"
  transactionProcessor_s :: "RawTransaction slice \<Rightarrow> string + ProcessedTransaction slice"
  dividendCalculate_s :: "ProcessedTransaction slice \<Rightarrow> DividendResult"
  dividendCalculateTaxSummary_s :: "ProcessedTransaction slice \<Rightarrow> DividendTaxResult"
  stockProcessor_s :: "ProcessedTransaction slice \<Rightarrow> SaleDetail slice \<times> PurchaseLot slice"
  optionProcessor_s ::
    "ProcessedTransaction slice \<Rightarrow> OptionSaleDetail slice \<times> OptionHolding slice"
  cashMovementProcessor_s :: "ProcessedTransaction slice \<Rightarrow> CashMovement slice"

record latest_state =
  latestResult :: "UploadResult_singleton option"
  latestRawTransactions :: "RawTransaction slice"
  latestProcessedTransactions :: "ProcessedTransaction slice"

datatype error_singleton =
    ErrParsingCsv string
  | ErrProcessingRawTransactions string
  | ErrNoUploadProcessed

definition ProcessUpload_singleton ::
  "uploadServiceImpl_singleton \<Rightarrow> string \<Rightarrow> latest_state \<Rightarrow>
   (error_singleton + UploadResult_singleton) \<times> latest_state" where
  "ProcessUpload_singleton s fileReader st =
     (case csvParser_s s fileReader of
        Inl err \<Rightarrow> (Inl (ErrParsingCsv err), st)
      | Inr rawTransactions \<Rightarrow>
        (case transactionProcessor_s s rawTransactions of
           Inl err \<Rightarrow> (Inl (ErrProcessingRawTransactions err), st)
         | Inr processedTransactions \<Rightarrow>
           (let dividendResult = dividendCalculate_s s processedTransactions;
                (stockSaleDetails, stockHoldings) = stockProcessor_s s processedTransactions;
                (optionSaleDetails, optionHoldings) = optionProcessor_s s processedTransactions;
                cashMovements = cashMovementProcessor_s s processedTransactions;
                result =
                  \<lparr>DividendResult_s = dividendResult,
                   StockSaleDetails_s = stockSaleDetails,
                   StockHoldings_s = stockHoldings,
                   OptionSaleDetails_s = optionSaleDetails,
                   OptionHoldings_s = optionHoldings,
                   CashMovements_s = cashMovements\<rparr>
            in (Inr result,
                \<lparr>latestResult = Some result,
                 latestRawTransactions = rawTransactions,
                 latestProcessedTransactions = processedTransactions\<rparr>))))"


section \<open>The engine of the specification\<close>

subsection \<open>EUR conversion of the normalizer\<close>

text \<open>
  Modelled from the spec: the Transaction Normalizer (package \<^verbatim>\<open>parsers\<close>) is missing.
  Section 3 gives the EUR amount of a transaction as the amount times the exchange rate,
  in fixed-point decimals.
\<close>

text \<open>Modelled from the spec: section 3, \<^verbatim>\<open>amountEUR\<close> (computed = amount times exchangeRate).\<close>

definition computeAmountEUR :: "decimal \<Rightarrow> decimal \<Rightarrow> decimal" where
  "computeAmountEUR amount exchangeRate = amount * exchangeRate"


subsection \<open>Stock Lot Matcher\<close>

text \<open>
  Modelled from the spec: the Stock Lot Matcher (\<^verbatim>\<open>processors.StockProcessor\<close>) is missing.
  Section 4.2: transactions are grouped by instrument identity in chronological order; a
  buy appends a lot whose unit cost is the price plus the commission per unit, in EUR; a
  sell consumes lots from the front of the queue, one disposal record per lot touched,
  with proceeds and commission shared in proportion to the quantity taken; what the queue
  cannot cover is taken from an implicit zero-cost lot dated at the sale date and flagged.
  An empty ISIN falls back to the product name (section 3). Quantities are signed, so the
  traded quantity is the absolute value.
\<close>

definition instrumentIdentity :: "ProcessedTransaction \<Rightarrow> string" where
  "instrumentIdentity tx = (if ISIN tx = [] then ProductName tx else ISIN tx)"

definition tradedQuantity :: "ProcessedTransaction \<Rightarrow> decimal" where
  "tradedQuantity tx = \<bar>Quantity tx\<bar>"

text \<open>
  Modelled from the spec: section 4.2, for each buy a new lot, unit cost = price + allocable
  commission, in EUR.
\<close>

definition newLot :: "ProcessedTransaction \<Rightarrow> PurchaseLot" where
  "newLot tx =
     \<lparr>lot_identity = instrumentIdentity tx,
      lot_acquisitionDate = Date tx,
      lot_quantityRemaining = tradedQuantity tx,
      lot_unitCostEUR = (Price tx + Commission tx / tradedQuantity tx) * ExchangeRate tx,
      lot_currency = Currency tx\<rparr>"

definition saleProceedsEUR :: "ProcessedTransaction \<Rightarrow> decimal" where
  "saleProceedsEUR sale = tradedQuantity sale * Price sale * ExchangeRate sale"

definition saleCommissionEUR :: "ProcessedTransaction \<Rightarrow> decimal" where
  "saleCommissionEUR sale = Commission sale * ExchangeRate sale"

text \<open>
  Modelled from the spec: section 3, \<^verbatim>\<open>SaleDetail\<close>, and section 4.2: the record of one
  partial consumption, cost basis proportional to the quantity taken, proceeds and
  commission of the sale shared in proportion, gain = proceeds - cost - commission.
\<close>

definition disposal ::
  "ProcessedTransaction \<Rightarrow> date \<Rightarrow> decimal \<Rightarrow> decimal \<Rightarrow> bool \<Rightarrow> SaleDetail" where
  "disposal sale acquired taken unitCost flagged =
     (let share = taken / tradedQuantity sale;
          proceeds = saleProceedsEUR sale * share;
          commission = saleCommissionEUR sale * share;
          cost = taken * unitCost
      in \<lparr>sd_identity = instrumentIdentity sale,
          sd_saleDate = Date sale,
          sd_acquisitionDate = acquired,
          sd_quantity = taken,
          sd_proceedsEUR = proceeds,
          sd_costBasisEUR = cost,
          sd_commissionEUR = commission,
          sd_gainEUR = proceeds - cost - commission,
          sd_holdingPeriodDays = Date sale - acquired,
          sd_oversold = flagged\<rparr>)"

text \<open>
  Modelled from the spec: section 4.2, a sell consumes from the front of the queue until the
  sale quantity is satisfied; an exhausted queue leaves the rest to the implicit zero-cost
  lot dated at the sale date, flagged.
\<close>

fun consumeLots ::
  "ProcessedTransaction \<Rightarrow> decimal \<Rightarrow> PurchaseLot list \<Rightarrow> SaleDetail list \<times> PurchaseLot list"
  where
  "consumeLots sale remaining [] =
     (if 0 < remaining then ([disposal sale (Date sale) remaining 0 True], []) else ([], []))"
| "consumeLots sale remaining (lot # lots) =
     (if remaining \<le> 0 then ([], lot # lots)
      else if remaining < lot_quantityRemaining lot
      then ([disposal sale (lot_acquisitionDate lot) remaining (lot_unitCostEUR lot) False],
            lot\<lparr>lot_quantityRemaining := lot_quantityRemaining lot - remaining\<rparr> # lots)
      else
        (let (details, lots') =
               consumeLots sale (remaining - lot_quantityRemaining lot) lots
         in (disposal sale (lot_acquisitionDate lot) (lot_quantityRemaining lot)
               (lot_unitCostEUR lot) False # details,
             lots')))"

text \<open>Modelled from the spec: section 4.2, the queue of one instrument over its transactions.\<close>

fun matchInstrument ::
  "PurchaseLot list \<Rightarrow> ProcessedTransaction list \<Rightarrow> SaleDetail list \<times> PurchaseLot list" where
  "matchInstrument lots [] = ([], lots)"
| "matchInstrument lots (tx # rest) =
     (if OrderType tx = ''buy'' then matchInstrument (lots @ [newLot tx]) rest
      else if OrderType tx = ''sell''
      then
        (let (details, lots') = consumeLots tx (tradedQuantity tx) lots;
             (details', lots'') = matchInstrument lots' rest
         in (details @ details', lots''))
      else matchInstrument lots rest)"

definition instruments :: "ProcessedTransaction list \<Rightarrow> string list" where
  "instruments txs = remdups (map instrumentIdentity txs)"

definition transactionsOf :: "string \<Rightarrow> ProcessedTransaction list \<Rightarrow> ProcessedTransaction list"
  where
  "transactionsOf instrument txs = filter (\<lambda>tx. instrumentIdentity tx = instrument) txs"

text \<open>
  Modelled from the spec: section 4.2, \<^verbatim>\<open>Process(transactions)\<close> gives the sale details and
  the open holdings, instrument by instrument; the collections are never nil (section 8).
\<close>

definition stockProcess ::
  "ProcessedTransaction slice \<Rightarrow> SaleDetail slice \<times> PurchaseLot slice" where
  "stockProcess transactions =
     (let txs = elems transactions;
          results = map (\<lambda>instrument. matchInstrument [] (transactionsOf instrument txs))
                      (instruments txs)
      in (Slice (concat (map fst results)), Slice (concat (map snd results))))"

subsection \<open>Option Lot Matcher\<close>

text \<open>
  Modelled from the spec: the Option Lot Matcher (\<^verbatim>\<open>processors.OptionProcessor\<close>) is missing.
  Section 4.3: lots are keyed by the contract (identity, strike, expiry, contract type);
  an open creates a lot and records its direction; a close consumes lots first-in-first-out
  with state sold; an assignment or exercise consumes the full remaining quantity of the
  matched lot, records the state, and emits a synthetic equity transaction (quantity =
  contracts times 100, price = strike, dated at the event); an expiry consumes the full
  remaining quantity with zero proceeds and emits nothing; an assignment or exercise with
  no matching open lot is counted and skipped.

  The spec does not say how a transaction names its contract, so the decoder is a
  parameter; with the key of the contract it gives the instrument the contract delivers,
  which the synthetic equity transaction names. A negative quantity opens a short position
  (quantities are signed). The side
  of the synthetic transaction is given by the spec for an assigned short call (a sell);
  the other three cases follow the meaning of the contract: the holder of a call buys, the
  holder of a put sells, and the writer takes the other side. The spec fixes no policy for
  a close that exceeds the open lots; the excess produces no record here.
\<close>

record OptionState =
  os_lots :: "OptionHolding list"
  os_details :: "OptionSaleDetail list"
  os_synthetic :: "ProcessedTransaction list"
  os_skipped :: nat

definition emptyOptionState :: OptionState where
  "emptyOptionState = \<lparr>os_lots = [], os_details = [], os_synthetic = [], os_skipped = 0\<rparr>"

definition contractsPerUnit :: decimal where
  "contractsPerUnit = 100"

definition openLot :: "OptionContract \<Rightarrow> ProcessedTransaction \<Rightarrow> OptionHolding" where
  "openLot c tx =
     \<lparr>oh_contract = c,
      oh_direction = (if Quantity tx < 0 then Short else Long),
      oh_openDate = Date tx,
      oh_quantityRemaining = \<bar>Quantity tx\<bar>,
      oh_unitPremiumEUR = Price tx * ExchangeRate tx\<rparr>"

definition optionDisposal ::
  "OptionHolding \<Rightarrow> CloseState \<Rightarrow> date \<Rightarrow> decimal \<Rightarrow> decimal \<Rightarrow> OptionSaleDetail" where
  "optionDisposal lot state closeDate taken unitPremium =
     \<lparr>osd_contract = oh_contract lot,
      osd_direction = oh_direction lot,
      osd_state = state,
      osd_openDate = oh_openDate lot,
      osd_closeDate = closeDate,
      osd_quantity = taken,
      osd_openPremiumEUR = taken * oh_unitPremiumEUR lot,
      osd_closePremiumEUR = taken * unitPremium\<rparr>"

text \<open>The first open lot of a contract, with the lots before and after it.\<close>

fun findLot ::
  "OptionContract \<Rightarrow> OptionHolding list \<Rightarrow>
   (OptionHolding list \<times> OptionHolding \<times> OptionHolding list) option" where
  "findLot c [] = None"
| "findLot c (lot # lots) =
     (if oh_contract lot = c then Some ([], lot, lots)
      else (case findLot c lots of
              None \<Rightarrow> None
            | Some (before, found, after) \<Rightarrow> Some (lot # before, found, after)))"

fun closeLots ::
  "OptionContract \<Rightarrow> date \<Rightarrow> decimal \<Rightarrow> decimal \<Rightarrow> OptionHolding list \<Rightarrow>
   OptionSaleDetail list \<times> OptionHolding list" where
  "closeLots c closeDate unitPremium remaining [] = ([], [])"
| "closeLots c closeDate unitPremium remaining (lot # lots) =
     (if remaining \<le> 0 then ([], lot # lots)
      else if oh_contract lot \<noteq> c
      then (let (details, lots') = closeLots c closeDate unitPremium remaining lots
            in (details, lot # lots'))
      else if remaining < oh_quantityRemaining lot
      then ([optionDisposal lot Sold closeDate remaining unitPremium],
            lot\<lparr>oh_quantityRemaining := oh_quantityRemaining lot - remaining\<rparr> # lots)
      else
        (let (details, lots') =
               closeLots c closeDate unitPremium (remaining - oh_quantityRemaining lot) lots
         in (optionDisposal lot Sold closeDate (oh_quantityRemaining lot) unitPremium # details,
             lots')))"

definition syntheticSide :: "ContractType \<Rightarrow> Direction \<Rightarrow> string" where
  "syntheticSide contractType direction =
     (case (contractType, direction) of
        (Call, Short) \<Rightarrow> ''sell''
      | (Call, Long) \<Rightarrow> ''buy''
      | (Put, Short) \<Rightarrow> ''buy''
      | (Put, Long) \<Rightarrow> ''sell'')"

text \<open>
  Modelled from the spec: section 4.3, the synthetic equity transaction of an assignment or
  exercise: quantity = contracts times 100, price = strike, date = date of the event.
\<close>

definition syntheticEquity ::
  "OptionHolding \<Rightarrow> ProcessedTransaction \<Rightarrow> ProcessedTransaction" where
  "syntheticEquity lot event =
     (let c = oh_contract lot;
          quantity = oh_quantityRemaining lot * contractsPerUnit
      in \<lparr>ID = 0,
          Date = Date event,
          ProductName = oc_underlying c,
          ISIN = oc_underlying c,
          Quantity = quantity,
          OriginalQuantity = quantity,
          Price = oc_strike c,
          OrderType = syntheticSide (oc_contractType c) (oh_direction lot),
          TransactionType = ''synthetic'',
          Description = Description event,
          Amount = quantity * oc_strike c,
          Currency = Currency event,
          Commission = 0,
          OrderID = OrderID event,
          ExchangeRate = ExchangeRate event,
          AmountEUR = computeAmountEUR (quantity * oc_strike c) (ExchangeRate event),
          CountryCode = CountryCode event\<rparr>)"

text \<open>
  Modelled from the spec: section 4.3, assignment or exercise consumes the full remaining
  quantity of the matched lot; without a matching open lot the event is counted and
  skipped.
\<close>

definition convertLot ::
  "CloseState \<Rightarrow> OptionContract \<Rightarrow> ProcessedTransaction \<Rightarrow> OptionState \<Rightarrow> OptionState" where
  "convertLot state c event st =
     (case findLot c (os_lots st) of
        None \<Rightarrow> st\<lparr>os_skipped := Suc (os_skipped st)\<rparr>
      | Some (before, lot, after) \<Rightarrow>
          st\<lparr>os_lots := before @ after,
             os_details := os_details st @
               [optionDisposal lot state (Date event) (oh_quantityRemaining lot) 0],
             os_synthetic := os_synthetic st @ [syntheticEquity lot event]\<rparr>)"

definition expireLot :: "OptionContract \<Rightarrow> ProcessedTransaction \<Rightarrow> OptionState \<Rightarrow> OptionState"
  where
  "expireLot c event st =
     (case findLot c (os_lots st) of
        None \<Rightarrow> st
      | Some (before, lot, after) \<Rightarrow>
          st\<lparr>os_lots := before @ after,
             os_details := os_details st @
               [optionDisposal lot Expired (Date event) (oh_quantityRemaining lot) 0]\<rparr>)"

text \<open>Modelled from the spec: section 4.3, the transitions of the Option Lot Matcher.\<close>

definition optionStep ::
  "(ProcessedTransaction \<Rightarrow> OptionContract) \<Rightarrow> ProcessedTransaction \<Rightarrow> OptionState \<Rightarrow>
   OptionState" where
  "optionStep contractOf tx st =
     (if OrderType tx = ''option-open''
      then st\<lparr>os_lots := os_lots st @ [openLot (contractOf tx) tx]\<rparr>
      else if OrderType tx = ''option-close''
      then (let (details, lots') =
                  closeLots (contractOf tx) (Date tx) (Price tx * ExchangeRate tx)
                    \<bar>Quantity tx\<bar> (os_lots st)
            in st\<lparr>os_lots := lots', os_details := os_details st @ details\<rparr>)
      else if OrderType tx = ''option-assignment''
      then convertLot Assigned (contractOf tx) tx st
      else if OrderType tx = ''option-exercise''
      then convertLot Exercised (contractOf tx) tx st
      else if OrderType tx = ''option-expiry''
      then expireLot (contractOf tx) tx st
      else st)"

definition optionRun ::
  "(ProcessedTransaction \<Rightarrow> OptionContract) \<Rightarrow> ProcessedTransaction list \<Rightarrow> OptionState \<Rightarrow>
   OptionState" where
  "optionRun contractOf txs st = foldl (\<lambda>st tx. optionStep contractOf tx st) st txs"

definition optionProcess ::
  "(ProcessedTransaction \<Rightarrow> OptionContract) \<Rightarrow> ProcessedTransaction slice \<Rightarrow>
   OptionSaleDetail slice \<times> OptionHolding slice" where
  "optionProcess contractOf transactions =
     (let st = optionRun contractOf (elems transactions) emptyOptionState
      in (Slice (os_details st), Slice (os_lots st)))"



section \<open>Notions used by the properties\<close>

text \<open>
  A cache is consistent with the table when every entry of the type its key expects holds
  the value the getter of that key computes from the table without a cache. The empty
  cache is consistent, and every operation of the service keeps a consistent cache
  consistent (lemma \<open>reachable_cache_ok\<close>).
\<close>

definition noCache :: reportCache where
  "noCache = (\<lambda>key. None)"

definition cache_ok :: "uploadServiceImpl \<Rightarrow> database \<Rightarrow> reportCache \<Rightarrow> bool" where
  "cache_ok s db cache =
     (\<forall>userID.
        (\<forall>v. asUploadResult (cache (Sprintf ckLatestUploadResult userID)) = Some v \<longrightarrow>
             fst (GetLatestUploadResult s None db noCache userID) = Inr v) \<and>
        (\<forall>v. asSaleDetails (cache (Sprintf ckStockSales userID)) = Some v \<longrightarrow>
             fst (GetStockSaleDetails s None db noCache userID) = Inr v) \<and>
        (\<forall>v. asOptionSaleDetails (cache (Sprintf ckOptionSales userID)) = Some v \<longrightarrow>
             fst (GetOptionSaleDetails s None db noCache userID) = Inr v) \<and>
        (\<forall>v. asDividendTaxResult (cache (Sprintf ckDividendSummary userID)) = Some v \<longrightarrow>
             fst (GetDividendTaxSummary s None db noCache userID) = Inr v) \<and>
        (\<forall>v. asPurchaseLots (cache (Sprintf ckStockHoldings userID)) = Some v \<longrightarrow>
             fst (GetStockHoldings s None db noCache userID) = Inr v) \<and>
        (\<forall>v. asOptionHoldings (cache (Sprintf ckOptionHoldings userID)) = Some v \<longrightarrow>
             fst (GetOptionHoldings s None db noCache userID) = Inr v) \<and>
        (\<forall>v. asTransactions (cache (Sprintf ckDividendTxns userID)) = Some v \<longrightarrow>
             fst (GetDividendTransactions s None db noCache userID) = Inr v))"

text \<open>The rows a committed batch adds to the table, keys counted up from the first new key.\<close>

fun newRows :: "int \<Rightarrow> int \<Rightarrow> ProcessedTransaction list \<Rightarrow> stored_row list" where
  "newRows userID newID [] = []"
| "newRows userID newID (tx # rest) =
     \<lparr>user_id = userID, row_tx = tx\<lparr>ID := newID\<rparr>\<rparr> # newRows userID (newID + 1) rest"

text \<open>No step of the database transaction fails for a batch of \<open>n\<close> rows.\<close>

definition faultless :: "write_faults \<Rightarrow> nat \<Rightarrow> bool" where
  "faultless faults n =
     (begin_fault faults = None \<and> prepare_fault faults = None \<and>
      (case exec_fault faults of None \<Rightarrow> True | Some (j, msg) \<Rightarrow> n \<le> j) \<and>
      commit_fault faults = None)"

text \<open>
  The rows of the table carry different keys; every upload keeps it so (lemma
  \<open>distinctIDs_ProcessUpload\<close>).
\<close>

definition distinctIDs :: "database \<Rightarrow> bool" where
  "distinctIDs db = distinct (map (\<lambda>r. ID (row_tx r)) db)"

definition rowsOfUser :: "database \<Rightarrow> int \<Rightarrow> stored_row list" where
  "rowsOfUser db userID = filter (\<lambda>r. user_id r = userID) db"

text \<open>
  The states of the service: the process starts with an empty cache over any table; an
  upload or a getter moves to the state it returns; an entry of the cache may expire at
  any time.
\<close>

inductive reachable :: "uploadServiceImpl \<Rightarrow> database \<Rightarrow> reportCache \<Rightarrow> bool"
  for s :: uploadServiceImpl where
  start: "reachable s db noCache"
| upload:
    "reachable s db cache \<Longrightarrow>
     ProcessUpload s faults fileReader userID db cache = (r, db', cache') \<Longrightarrow>
     reachable s db' cache'"
| getLatestUploadResult:
    "reachable s db cache \<Longrightarrow>
     reachable s db (snd (GetLatestUploadResult s fault db cache userID))"
| getDividendTaxSummary:
    "reachable s db cache \<Longrightarrow>
     reachable s db (snd (GetDividendTaxSummary s fault db cache userID))"
| getStockSaleDetails:
    "reachable s db cache \<Longrightarrow>
     reachable s db (snd (GetStockSaleDetails s fault db cache userID))"
| getDividendTransactions:
    "reachable s db cache \<Longrightarrow>
     reachable s db (snd (GetDividendTransactions s fault db cache userID))"
| getStockHoldings:
    "reachable s db cache \<Longrightarrow>
     reachable s db (snd (GetStockHoldings s fault db cache userID))"
| getOptionHoldings:
    "reachable s db cache \<Longrightarrow>
     reachable s db (snd (GetOptionHoldings s fault db cache userID))"
| getOptionSaleDetails:
    "reachable s db cache \<Longrightarrow>
     reachable s db (snd (GetOptionSaleDetails s fault db cache userID))"
| expire: "reachable s db cache \<Longrightarrow> reachable s db (cache(key := None))"

section \<open>Example data\<close>

text \<open>Concrete transactions, a concrete service and concrete faults, used to instantiate the theorems.\<close>

definition exampleBuy :: ProcessedTransaction where
  "exampleBuy =
     \<lparr>ID = 0, Date = 1, ProductName = ''ACME'', ISIN = ''XX0000000001'', Quantity = 10,
      OriginalQuantity = 10, Price = 10, OrderType = ''buy'', TransactionType = ''stock'',
      Description = [], Amount = - 100, Currency = ''EUR'', Commission = 0, OrderID = ''o1'',
      ExchangeRate = 1, AmountEUR = - 100, CountryCode = ''XX''\<rparr>"





definition exampleDividend :: ProcessedTransaction where
  "exampleDividend = exampleBuy\<lparr>Date := 4, Quantity := 0, OriginalQuantity := 0, Price := 0,
     OrderType := ''Dividend'', Amount := 5, AmountEUR := 5, OrderID := ''o4''\<rparr>"

definition exampleDividendTax :: ProcessedTransaction where
  "exampleDividendTax = exampleBuy\<lparr>Date := 4, Quantity := 0, OriginalQuantity := 0, Price := 0,
     OrderType := ''dividendtax'', Amount := - 1, AmountEUR := - 1, OrderID := ''o5''\<rparr>"

definition exampleContract :: OptionContract where
  "exampleContract =
     \<lparr>oc_identity = ''ACME C50'', oc_underlying = ''XX0000000001'', oc_contractType = Call,
      oc_strike = 50, oc_expiry = 30\<rparr>"



definition exampleService :: uploadServiceImpl where
  "exampleService =
     \<lparr>csvParser = (\<lambda>content. if content = [] then Inr (Slice []) else Inr (Slice [[content]])),
      transactionProcessor =
        (\<lambda>raws. if elems raws = [[''malformed'']] then Inl ''malformed record''
                else Inr (Slice [exampleBuy, exampleDividend, exampleDividendTax])),
      dividendProcessor = (\<lambda>txs. GoMap []),
      stockProcessor = stockProcess,
      optionProcessor = optionProcess (\<lambda>tx. exampleContract),
      cashMovementProcessor = (\<lambda>txs. Slice [])\<rparr>"

definition noFaults :: write_faults where
  "noFaults =
     \<lparr>begin_fault = None, prepare_fault = None, exec_fault = None, commit_fault = None\<rparr>"

definition exampleRow :: stored_row where
  "exampleRow = \<lparr>user_id = 7, row_tx = exampleDividendTax\<lparr>ID := 1\<rparr>\<rparr>"




section \<open>Basic facts about the loops and the read\<close>






lemma scanRows_None:
  "scanRows None userID i acc rows = Inr (if rows = [] then acc else Slice (elems acc @ rows))"
  by (induction rows arbitrary: i acc) (auto simp: append_slice_def)

lemma scanRows_same:
  "scanRows fault userID i acc rows = Inr s \<Longrightarrow> scanRows None userID i acc rows = Inr s"
  by (induction rows arbitrary: i acc)
     (auto split: option.splits read_fault.splits if_splits)

lemma fetch_None:
  "fetchUserProcessedTransactions None db userID =
     Inr (if queryRows db userID = [] then NilSlice else Slice (queryRows db userID))"
  by (simp add: fetchUserProcessedTransactions_def scanRows_None)

lemma fetch_same:
  "fetchUserProcessedTransactions fault db userID = Inr txs \<Longrightarrow>
   fetchUserProcessedTransactions None db userID = Inr txs"
  unfolding fetchUserProcessedTransactions_def
  by (auto split: option.splits read_fault.splits sum.splits dest: scanRows_same)



lemma set_queryRows: "set (queryRows db userID) = row_tx ` {r \<in> set db. user_id r = userID}"
  by (auto simp: queryRows_def)

section \<open>Facts about persistence, the getters and the cache\<close>

lemma execInserts_faultless:
  "(\<And>j msg. exec_fault faults = Some (j, msg) \<Longrightarrow> i + length txs \<le> j) \<Longrightarrow>
   execInserts faults userID i newID pending txs = Inr (pending @ newRows userID newID txs)"
proof (induction txs arbitrary: i newID pending)
  case Nil
  show ?case by simp
next
  case (Cons tx rest)
  have "execInserts faults userID (Suc i) (newID + 1)
          (pending @ [\<lparr>user_id = userID, row_tx = tx\<lparr>ID := newID\<rparr>\<rparr>]) rest =
        Inr ((pending @ [\<lparr>user_id = userID, row_tx = tx\<lparr>ID := newID\<rparr>\<rparr>]) @
             newRows userID (newID + 1) rest)"
    using Cons.prems by (intro Cons.IH) fastforce
  moreover have "\<And>j msg. exec_fault faults = Some (j, msg) \<Longrightarrow> j \<noteq> i"
    using Cons.prems by fastforce
  ultimately show ?case by (auto split: option.splits)
qed

lemma execInserts_fault:
  "exec_fault faults = Some (j, msg) \<Longrightarrow> i \<le> j \<Longrightarrow> j < i + length txs \<Longrightarrow>
   execInserts faults userID i newID pending txs = Inl (ErrInsert (OrderID (txs ! (j - i))) msg)"
proof (induction txs arbitrary: i newID pending)
  case Nil
  then show ?case by simp
next
  case (Cons tx rest)
  show ?case
  proof (cases "j = i")
    case True
    with Cons.prems show ?thesis by simp
  next
    case False
    with Cons.prems have "Suc i \<le> j" "j < Suc i + length rest" by simp_all
    from Cons.IH[OF Cons.prems(1) this] False Cons.prems(1,2) show ?thesis
      by (simp add: Suc_diff_le)
  qed
qed

lemma persistBatch_faultless:
  "faultless faults (length txs) \<Longrightarrow>
   persistBatch faults db userID txs = (Inr (), db @ newRows userID (nextID db) txs)"
proof -
  assume ok: "faultless faults (length txs)"
  then have "execInserts faults userID 0 (nextID db) [] txs =
      Inr ([] @ newRows userID (nextID db) txs)"
    by (intro execInserts_faultless) (auto simp: faultless_def)
  with ok show ?thesis by (simp add: persistBatch_def faultless_def)
qed

lemma persistBatch_fault:
  "\<not> faultless faults (length txs) \<Longrightarrow>
   \<exists>err. persistBatch faults db userID txs = (Inl err, db)"
proof -
  assume nf: "\<not> faultless faults (length txs)"
  show ?thesis
  proof (cases "exec_fault faults")
    case None
    then have "execInserts faults userID 0 (nextID db) [] txs =
        Inr ([] @ newRows userID (nextID db) txs)"
      by (intro execInserts_faultless) simp
    with nf None show ?thesis
      by (auto simp: persistBatch_def faultless_def split: option.splits)
  next
    case (Some p)
    obtain j msg where p: "p = (j, msg)" by (cases p)
    show ?thesis
    proof (cases "j < length txs")
      case True
      with Some p show ?thesis
        using execInserts_fault[of faults j msg 0 txs userID "nextID db" "[]"]
        by (auto simp: persistBatch_def split: option.splits)
    next
      case False
      with Some p have "execInserts faults userID 0 (nextID db) [] txs =
          Inr ([] @ newRows userID (nextID db) txs)"
        by (intro execInserts_faultless) simp
      with False Some p nf show ?thesis
        by (auto simp: persistBatch_def faultless_def split: option.splits)
    qed
  qed
qed

lemmas ck_defs = ckLatestUploadResult_def ckStockSales_def ckOptionSales_def
  ckDividendSummary_def ckStockHoldings_def ckOptionHoldings_def ckDividendTxns_def

lemmas getter_defs = GetLatestUploadResult_def GetStockSaleDetails_def
  GetOptionSaleDetails_def GetDividendTaxSummary_def GetStockHoldings_def
  GetOptionHoldings_def GetDividendTransactions_def

lemma InvalidateUserCache_apply:
  "InvalidateUserCache cache userID key =
     (if key \<in> set (keysToDelete userID) then None else cache key)"
  by (simp add: InvalidateUserCache_def keysToDelete_def)

lemma queryRows_cong:
  "rowsOfUser db1 userID = rowsOfUser db2 userID \<Longrightarrow> queryRows db1 userID = queryRows db2 userID"
  by (simp add: queryRows_def rowsOfUser_def)

lemma user_id_newRows: "r \<in> set (newRows userID newID txs) \<Longrightarrow> user_id r = userID"
  by (induction txs arbitrary: newID) auto

lemma rowsOfUser_append_other:
  "userID' \<noteq> userID \<Longrightarrow>
   rowsOfUser (db @ newRows userID newID txs) userID' = rowsOfUser db userID'"
  by (auto simp: rowsOfUser_def filter_empty_conv dest: user_id_newRows)

lemma fetch_cong:
  "queryRows db1 userID = queryRows db2 userID \<Longrightarrow>
   fetchUserProcessedTransactions fault db1 userID = fetchUserProcessedTransactions fault db2 userID"
  by (simp add: fetchUserProcessedTransactions_def split: option.splits read_fault.splits)

lemma getters_cong:
  assumes "queryRows db1 userID = queryRows db2 userID"
  shows "GetLatestUploadResult s fault db1 cache userID = GetLatestUploadResult s fault db2 cache userID"
    and "GetStockSaleDetails s fault db1 cache userID = GetStockSaleDetails s fault db2 cache userID"
    and "GetOptionSaleDetails s fault db1 cache userID = GetOptionSaleDetails s fault db2 cache userID"
    and "GetDividendTaxSummary s fault db1 cache userID = GetDividendTaxSummary s fault db2 cache userID"
    and "GetStockHoldings s fault db1 cache userID = GetStockHoldings s fault db2 cache userID"
    and "GetOptionHoldings s fault db1 cache userID = GetOptionHoldings s fault db2 cache userID"
    and "GetDividendTransactions s fault db1 cache userID = GetDividendTransactions s fault db2 cache userID"
  unfolding getter_defs fetch_cong[OF assms] by (rule refl)+

lemma getters_miss:
  "asUploadResult (cache (Sprintf ckLatestUploadResult userID)) = None \<Longrightarrow>
     fst (GetLatestUploadResult s fault db cache userID) =
     fst (GetLatestUploadResult s fault db noCache userID)"
  "asSaleDetails (cache (Sprintf ckStockSales userID)) = None \<Longrightarrow>
     fst (GetStockSaleDetails s fault db cache userID) =
     fst (GetStockSaleDetails s fault db noCache userID)"
  "asOptionSaleDetails (cache (Sprintf ckOptionSales userID)) = None \<Longrightarrow>
     fst (GetOptionSaleDetails s fault db cache userID) =
     fst (GetOptionSaleDetails s fault db noCache userID)"
  "asDividendTaxResult (cache (Sprintf ckDividendSummary userID)) = None \<Longrightarrow>
     fst (GetDividendTaxSummary s fault db cache userID) =
     fst (GetDividendTaxSummary s fault db noCache userID)"
  "asPurchaseLots (cache (Sprintf ckStockHoldings userID)) = None \<Longrightarrow>
     fst (GetStockHoldings s fault db cache userID) =
     fst (GetStockHoldings s fault db noCache userID)"
  "asOptionHoldings (cache (Sprintf ckOptionHoldings userID)) = None \<Longrightarrow>
     fst (GetOptionHoldings s fault db cache userID) =
     fst (GetOptionHoldings s fault db noCache userID)"
  "asTransactions (cache (Sprintf ckDividendTxns userID)) = None \<Longrightarrow>
     fst (GetDividendTransactions s fault db cache userID) =
     fst (GetDividendTransactions s fault db noCache userID)"
  by (simp_all add: getter_defs noCache_def Let_def split: sum.splits prod.splits)

lemma getters_hit:
  "asUploadResult (cache (Sprintf ckLatestUploadResult userID)) = Some v1 \<Longrightarrow>
     GetLatestUploadResult s fault db cache userID = (Inr v1, cache)"
  "asSaleDetails (cache (Sprintf ckStockSales userID)) = Some v2 \<Longrightarrow>
     GetStockSaleDetails s fault db cache userID = (Inr v2, cache)"
  "asOptionSaleDetails (cache (Sprintf ckOptionSales userID)) = Some v3 \<Longrightarrow>
     GetOptionSaleDetails s fault db cache userID = (Inr v3, cache)"
  "asDividendTaxResult (cache (Sprintf ckDividendSummary userID)) = Some v4 \<Longrightarrow>
     GetDividendTaxSummary s fault db cache userID = (Inr v4, cache)"
  "asPurchaseLots (cache (Sprintf ckStockHoldings userID)) = Some v5 \<Longrightarrow>
     GetStockHoldings s fault db cache userID = (Inr v5, cache)"
  "asOptionHoldings (cache (Sprintf ckOptionHoldings userID)) = Some v6 \<Longrightarrow>
     GetOptionHoldings s fault db cache userID = (Inr v6, cache)"
  "asTransactions (cache (Sprintf ckDividendTxns userID)) = Some v7 \<Longrightarrow>
     GetDividendTransactions s fault db cache userID = (Inr v7, cache)"
  by (simp_all add: getter_defs Let_def)

lemma cache_ok_empty: "cache_ok s db noCache"
  by (simp add: cache_ok_def noCache_def)

lemma cache_ok_delete: "cache_ok s db cache \<Longrightarrow> cache_ok s db (cache(key := None))"
  unfolding cache_ok_def by simp

lemma cache_ok_set:
  assumes "cache_ok s db cache"
  shows "fst (GetLatestUploadResult s None db noCache userID) = Inr v1 \<Longrightarrow>
           cache_ok s db (cache(Sprintf ckLatestUploadResult userID \<mapsto> CachedUploadResult v1))"
    and "fst (GetStockSaleDetails s None db noCache userID) = Inr v2 \<Longrightarrow>
           cache_ok s db (cache(Sprintf ckStockSales userID \<mapsto> CachedSaleDetails v2))"
    and "fst (GetOptionSaleDetails s None db noCache userID) = Inr v3 \<Longrightarrow>
           cache_ok s db (cache(Sprintf ckOptionSales userID \<mapsto> CachedOptionSaleDetails v3))"
    and "fst (GetDividendTaxSummary s None db noCache userID) = Inr v4 \<Longrightarrow>
           cache_ok s db (cache(Sprintf ckDividendSummary userID \<mapsto> CachedDividendTaxResult v4))"
    and "fst (GetStockHoldings s None db noCache userID) = Inr v5 \<Longrightarrow>
           cache_ok s db (cache(Sprintf ckStockHoldings userID \<mapsto> CachedPurchaseLots v5))"
    and "fst (GetOptionHoldings s None db noCache userID) = Inr v6 \<Longrightarrow>
           cache_ok s db (cache(Sprintf ckOptionHoldings userID \<mapsto> CachedOptionHoldings v6))"
    and "fst (GetDividendTransactions s None db noCache userID) = Inr v7 \<Longrightarrow>
           cache_ok s db (cache(Sprintf ckDividendTxns userID \<mapsto> CachedTransactions v7))"
  using assms unfolding cache_ok_def by (simp_all add: Sprintf_def ck_defs)

lemma getters_miss_value:
  assumes "fetchUserProcessedTransactions fault db userID = Inr txs"
  shows "asUploadResult (cache (Sprintf ckLatestUploadResult userID)) = None \<Longrightarrow>
     \<exists>v. GetLatestUploadResult s fault db cache userID =
            (Inr v, cache(Sprintf ckLatestUploadResult userID \<mapsto> CachedUploadResult v)) \<and>
         fst (GetLatestUploadResult s None db noCache userID) = Inr v"
   and "asSaleDetails (cache (Sprintf ckStockSales userID)) = None \<Longrightarrow>
     \<exists>v. GetStockSaleDetails s fault db cache userID =
            (Inr v, cache(Sprintf ckStockSales userID \<mapsto> CachedSaleDetails v)) \<and>
         fst (GetStockSaleDetails s None db noCache userID) = Inr v"
   and "asOptionSaleDetails (cache (Sprintf ckOptionSales userID)) = None \<Longrightarrow>
     \<exists>v. GetOptionSaleDetails s fault db cache userID =
            (Inr v, cache(Sprintf ckOptionSales userID \<mapsto> CachedOptionSaleDetails v)) \<and>
         fst (GetOptionSaleDetails s None db noCache userID) = Inr v"
   and "asDividendTaxResult (cache (Sprintf ckDividendSummary userID)) = None \<Longrightarrow>
     \<exists>v. GetDividendTaxSummary s fault db cache userID =
            (Inr v, cache(Sprintf ckDividendSummary userID \<mapsto> CachedDividendTaxResult v)) \<and>
         fst (GetDividendTaxSummary s None db noCache userID) = Inr v"
   and "asPurchaseLots (cache (Sprintf ckStockHoldings userID)) = None \<Longrightarrow>
     \<exists>v. GetStockHoldings s fault db cache userID =
            (Inr v, cache(Sprintf ckStockHoldings userID \<mapsto> CachedPurchaseLots v)) \<and>
         fst (GetStockHoldings s None db noCache userID) = Inr v"
   and "asOptionHoldings (cache (Sprintf ckOptionHoldings userID)) = None \<Longrightarrow>
     \<exists>v. GetOptionHoldings s fault db cache userID =
            (Inr v, cache(Sprintf ckOptionHoldings userID \<mapsto> CachedOptionHoldings v)) \<and>
         fst (GetOptionHoldings s None db noCache userID) = Inr v"
   and "asTransactions (cache (Sprintf ckDividendTxns userID)) = None \<Longrightarrow>
     \<exists>v. GetDividendTransactions s fault db cache userID =
            (Inr v, cache(Sprintf ckDividendTxns userID \<mapsto> CachedTransactions v)) \<and>
         fst (GetDividendTransactions s None db noCache userID) = Inr v"
  using assms fetch_same[OF assms]
  by (simp_all add: getter_defs noCache_def Let_def case_prod_beta)

lemma getters_miss_error:
  assumes "fetchUserProcessedTransactions fault db userID = Inl err"
  shows "asUploadResult (cache (Sprintf ckLatestUploadResult userID)) = None \<Longrightarrow>
           GetLatestUploadResult s fault db cache userID = (Inl err, cache)"
   and "asSaleDetails (cache (Sprintf ckStockSales userID)) = None \<Longrightarrow>
           GetStockSaleDetails s fault db cache userID = (Inl err, cache)"
   and "asOptionSaleDetails (cache (Sprintf ckOptionSales userID)) = None \<Longrightarrow>
           GetOptionSaleDetails s fault db cache userID = (Inl err, cache)"
   and "asDividendTaxResult (cache (Sprintf ckDividendSummary userID)) = None \<Longrightarrow>
           GetDividendTaxSummary s fault db cache userID = (Inl err, cache)"
   and "asPurchaseLots (cache (Sprintf ckStockHoldings userID)) = None \<Longrightarrow>
           GetStockHoldings s fault db cache userID = (Inl err, cache)"
   and "asOptionHoldings (cache (Sprintf ckOptionHoldings userID)) = None \<Longrightarrow>
           GetOptionHoldings s fault db cache userID = (Inl err, cache)"
   and "asTransactions (cache (Sprintf ckDividendTxns userID)) = None \<Longrightarrow>
           GetDividendTransactions s fault db cache userID = (Inl err, cache)"
  using assms by (simp_all add: getter_defs Let_def)

lemma cache_ok_GetLatestUploadResult:
  assumes "cache_ok s db cache"
  shows "cache_ok s db (snd (GetLatestUploadResult s fault db cache userID))"
proof (cases "asUploadResult (cache (Sprintf ckLatestUploadResult userID))")
  case (Some v)
  with assms show ?thesis by (simp add: getters_hit(1))
next
  case None
  show ?thesis
  proof (cases "fetchUserProcessedTransactions fault db userID")
    case (Inl err)
    with None assms show ?thesis by (simp add: getters_miss_error(1))
  next
    case (Inr txs)
    from getters_miss_value(1)[where cache=cache and s=s, OF Inr None] obtain v where
      "GetLatestUploadResult s fault db cache userID =
         (Inr v, cache(Sprintf ckLatestUploadResult userID \<mapsto> CachedUploadResult v))"
      "fst (GetLatestUploadResult s None db noCache userID) = Inr v"
      by blast
    with cache_ok_set(1)[OF assms] show ?thesis by simp
  qed
qed


lemma cache_ok_GetStockSaleDetails:
  assumes "cache_ok s db cache"
  shows "cache_ok s db (snd (GetStockSaleDetails s fault db cache userID))"
proof (cases "asSaleDetails (cache (Sprintf ckStockSales userID))")
  case (Some v)
  with assms show ?thesis by (simp add: getters_hit(2))
next
  case None
  show ?thesis
  proof (cases "fetchUserProcessedTransactions fault db userID")
    case (Inl err)
    with None assms show ?thesis by (simp add: getters_miss_error(2))
  next
    case (Inr txs)
    from getters_miss_value(2)[where cache=cache and s=s, OF Inr None] obtain v where
      "GetStockSaleDetails s fault db cache userID =
         (Inr v, cache(Sprintf ckStockSales userID \<mapsto> CachedSaleDetails v))"
      "fst (GetStockSaleDetails s None db noCache userID) = Inr v"
      by blast
    with cache_ok_set(2)[OF assms] show ?thesis by simp
  qed
qed


lemma cache_ok_GetOptionSaleDetails:
  assumes "cache_ok s db cache"
  shows "cache_ok s db (snd (GetOptionSaleDetails s fault db cache userID))"
proof (cases "asOptionSaleDetails (cache (Sprintf ckOptionSales userID))")
  case (Some v)
  with assms show ?thesis by (simp add: getters_hit(3))
next
  case None
  show ?thesis
  proof (cases "fetchUserProcessedTransactions fault db userID")
    case (Inl err)
    with None assms show ?thesis by (simp add: getters_miss_error(3))
  next
    case (Inr txs)
    from getters_miss_value(3)[where cache=cache and s=s, OF Inr None] obtain v where
      "GetOptionSaleDetails s fault db cache userID =
         (Inr v, cache(Sprintf ckOptionSales userID \<mapsto> CachedOptionSaleDetails v))"
      "fst (GetOptionSaleDetails s None db noCache userID) = Inr v"
      by blast
    with cache_ok_set(3)[OF assms] show ?thesis by simp
  qed
qed


lemma cache_ok_GetDividendTaxSummary:
  assumes "cache_ok s db cache"
  shows "cache_ok s db (snd (GetDividendTaxSummary s fault db cache userID))"
proof (cases "asDividendTaxResult (cache (Sprintf ckDividendSummary userID))")
  case (Some v)
  with assms show ?thesis by (simp add: getters_hit(4))
next
  case None
  show ?thesis
  proof (cases "fetchUserProcessedTransactions fault db userID")
    case (Inl err)
    with None assms show ?thesis by (simp add: getters_miss_error(4))
  next
    case (Inr txs)
    from getters_miss_value(4)[where cache=cache and s=s, OF Inr None] obtain v where
      "GetDividendTaxSummary s fault db cache userID =
         (Inr v, cache(Sprintf ckDividendSummary userID \<mapsto> CachedDividendTaxResult v))"
      "fst (GetDividendTaxSummary s None db noCache userID) = Inr v"
      by blast
    with cache_ok_set(4)[OF assms] show ?thesis by simp
  qed
qed


lemma cache_ok_GetStockHoldings:
  assumes "cache_ok s db cache"
  shows "cache_ok s db (snd (GetStockHoldings s fault db cache userID))"
proof (cases "asPurchaseLots (cache (Sprintf ckStockHoldings userID))")
  case (Some v)
  with assms show ?thesis by (simp add: getters_hit(5))
next
  case None
  show ?thesis
  proof (cases "fetchUserProcessedTransactions fault db userID")
    case (Inl err)
    with None assms show ?thesis by (simp add: getters_miss_error(5))
  next
    case (Inr txs)
    from getters_miss_value(5)[where cache=cache and s=s, OF Inr None] obtain v where
      "GetStockHoldings s fault db cache userID =
         (Inr v, cache(Sprintf ckStockHoldings userID \<mapsto> CachedPurchaseLots v))"
      "fst (GetStockHoldings s None db noCache userID) = Inr v"
      by blast
    with cache_ok_set(5)[OF assms] show ?thesis by simp
  qed
qed


lemma cache_ok_GetOptionHoldings:
  assumes "cache_ok s db cache"
  shows "cache_ok s db (snd (GetOptionHoldings s fault db cache userID))"
proof (cases "asOptionHoldings (cache (Sprintf ckOptionHoldings userID))")
  case (Some v)
  with assms show ?thesis by (simp add: getters_hit(6))
next
  case None
  show ?thesis
  proof (cases "fetchUserProcessedTransactions fault db userID")
    case (Inl err)
    with None assms show ?thesis by (simp add: getters_miss_error(6))
  next
    case (Inr txs)
    from getters_miss_value(6)[where cache=cache and s=s, OF Inr None] obtain v where
      "GetOptionHoldings s fault db cache userID =
         (Inr v, cache(Sprintf ckOptionHoldings userID \<mapsto> CachedOptionHoldings v))"
      "fst (GetOptionHoldings s None db noCache userID) = Inr v"
      by blast
    with cache_ok_set(6)[OF assms] show ?thesis by simp
  qed
qed


lemma cache_ok_GetDividendTransactions:
  assumes "cache_ok s db cache"
  shows "cache_ok s db (snd (GetDividendTransactions s fault db cache userID))"
proof (cases "asTransactions (cache (Sprintf ckDividendTxns userID))")
  case (Some v)
  with assms show ?thesis by (simp add: getters_hit(7))
next
  case None
  show ?thesis
  proof (cases "fetchUserProcessedTransactions fault db userID")
    case (Inl err)
    with None assms show ?thesis by (simp add: getters_miss_error(7))
  next
    case (Inr txs)
    from getters_miss_value(7)[where cache=cache and s=s, OF Inr None] obtain v where
      "GetDividendTransactions s fault db cache userID =
         (Inr v, cache(Sprintf ckDividendTxns userID \<mapsto> CachedTransactions v))"
      "fst (GetDividendTransactions s None db noCache userID) = Inr v"
      by blast
    with cache_ok_set(7)[OF assms] show ?thesis by simp
  qed
qed


lemma persistBatch_insert_fault:
  assumes "begin_fault faults = None" and "prepare_fault faults = None"
    and "exec_fault faults = Some (j, msg)" and "j < length txs"
  shows "persistBatch faults db userID txs = (Inl (ErrInsert (OrderID (txs ! j)) msg), db)"
  using assms execInserts_fault[of faults j msg 0 txs userID "nextID db" "[]"]
  by (simp add: persistBatch_def)

lemma persistBatch_commit_fault:
  assumes "faultless (faults\<lparr>commit_fault := None\<rparr>) (length txs)"
    and "commit_fault faults = Some msg"
  shows "persistBatch faults db userID txs = (Inl (ErrCommit msg), db)"
proof -
  from assms(1) have "execInserts faults userID 0 (nextID db) [] txs =
      Inr ([] @ newRows userID (nextID db) txs)"
    by (intro execInserts_faultless) (auto simp: faultless_def)
  with assms show ?thesis by (simp add: persistBatch_def faultless_def)
qed



lemma ToLower_examples:
  "ToLower ''dividend'' = ''dividend''"
  "ToLower ''Dividend'' = ''dividend''"
  "ToLower ''dividendtax'' = ''dividendtax''"
  "ToLower ''buy'' = ''buy''"
  by code_simp+

lemma ProcessUpload_cases:
  assumes "ProcessUpload s faults fileReader userID db cache = (r, db', cache')"
  shows "(db' = db \<and> cache' = cache) \<or>
         (\<exists>txs. db' = db @ newRows userID (nextID db) txs \<and>
                cache' = InvalidateUserCache cache userID)"
proof (cases "csvParser s fileReader")
  case (Inl err)
  with assms show ?thesis by (simp add: ProcessUpload_def)
next
  case raw: (Inr rawTransactions)
  show ?thesis
  proof (cases "len rawTransactions = 0")
    case True
    with raw assms show ?thesis by (simp add: ProcessUpload_def)
  next
    case rawlen: False
    show ?thesis
    proof (cases "transactionProcessor s rawTransactions")
      case (Inl err)
      with raw rawlen assms show ?thesis by (simp add: ProcessUpload_def)
    next
      case proc: (Inr processedTransactions)
      show ?thesis
      proof (cases "len processedTransactions = 0")
        case True
        with raw rawlen proc assms show ?thesis by (simp add: ProcessUpload_def)
      next
        case proclen: False
        show ?thesis
        proof (cases "faultless faults (length (elems processedTransactions))")
          case True
          from persistBatch_faultless[OF True, of db userID] raw rawlen proc proclen assms
          show ?thesis
            by (auto simp: ProcessUpload_def Let_def case_prod_beta)
        next
          case False
          from persistBatch_fault[OF False, of db userID] raw rawlen proc proclen assms
          show ?thesis
            by (auto simp: ProcessUpload_def)
        qed
      qed
    qed
  qed
qed

lemma InvalidateUserCache_other:
  "userID' \<noteq> userID \<Longrightarrow>
   InvalidateUserCache cache userID (Sprintf format userID') = cache (Sprintf format userID')"
  by (simp add: InvalidateUserCache_apply keysToDelete_def Sprintf_def)

lemma InvalidateUserCache_same:
  "format \<in> {ckLatestUploadResult, ckStockSales, ckOptionSales, ckDividendSummary,
              ckStockHoldings, ckOptionHoldings, ckDividendTxns} \<Longrightarrow>
   InvalidateUserCache cache userID (Sprintf format userID) = None"
  by (auto simp: InvalidateUserCache_apply keysToDelete_def)

lemma cache_ok_commit:
  assumes "cache_ok s db cache"
  shows "cache_ok s (db @ newRows userID newID txs) (InvalidateUserCache cache userID)"
  unfolding cache_ok_def
proof (intro allI)
  fix userID'
  show "(\<forall>v. asUploadResult (InvalidateUserCache cache userID
                  (Sprintf ckLatestUploadResult userID')) = Some v \<longrightarrow>
             fst (GetLatestUploadResult s None (db @ newRows userID newID txs) noCache userID') =
             Inr v) \<and>
        (\<forall>v. asSaleDetails (InvalidateUserCache cache userID
                  (Sprintf ckStockSales userID')) = Some v \<longrightarrow>
             fst (GetStockSaleDetails s None (db @ newRows userID newID txs) noCache userID') =
             Inr v) \<and>
        (\<forall>v. asOptionSaleDetails (InvalidateUserCache cache userID
                  (Sprintf ckOptionSales userID')) = Some v \<longrightarrow>
             fst (GetOptionSaleDetails s None (db @ newRows userID newID txs) noCache userID') =
             Inr v) \<and>
        (\<forall>v. asDividendTaxResult (InvalidateUserCache cache userID
                  (Sprintf ckDividendSummary userID')) = Some v \<longrightarrow>
             fst (GetDividendTaxSummary s None (db @ newRows userID newID txs) noCache userID') =
             Inr v) \<and>
        (\<forall>v. asPurchaseLots (InvalidateUserCache cache userID
                  (Sprintf ckStockHoldings userID')) = Some v \<longrightarrow>
             fst (GetStockHoldings s None (db @ newRows userID newID txs) noCache userID') =
             Inr v) \<and>
        (\<forall>v. asOptionHoldings (InvalidateUserCache cache userID
                  (Sprintf ckOptionHoldings userID')) = Some v \<longrightarrow>
             fst (GetOptionHoldings s None (db @ newRows userID newID txs) noCache userID') =
             Inr v) \<and>
        (\<forall>v. asTransactions (InvalidateUserCache cache userID
                  (Sprintf ckDividendTxns userID')) = Some v \<longrightarrow>
             fst (GetDividendTransactions s None (db @ newRows userID newID txs) noCache userID') =
             Inr v)"
  proof (cases "userID' = userID")
    case True
    then show ?thesis by (simp add: InvalidateUserCache_same)
  next
    case False
    then have "queryRows (db @ newRows userID newID txs) userID' = queryRows db userID'"
      by (intro queryRows_cong rowsOfUser_append_other)
    note eq = getters_cong[OF this]
    from assms show ?thesis
      unfolding cache_ok_def InvalidateUserCache_other[OF False] eq by blast
  qed
qed

lemma cache_ok_ProcessUpload:
  assumes "cache_ok s db cache"
    and "ProcessUpload s faults fileReader userID db cache = (r, db', cache')"
  shows "cache_ok s db' cache'"
  using ProcessUpload_cases[OF assms(2)] assms(1) cache_ok_commit by blast

lemma ID_less_nextID: "r \<in> set db \<Longrightarrow> ID (row_tx r) < nextID db"
proof -
  have "r \<in> set db \<Longrightarrow> ID (row_tx r) \<le> foldr (\<lambda>r m. max (ID (row_tx r)) m) db 0"
    by (induction db) auto
  then show "r \<in> set db \<Longrightarrow> ID (row_tx r) < nextID db"
    by (simp add: nextID_def)
qed

lemma IDs_newRows:
  "r \<in> set (newRows userID newID txs) \<Longrightarrow> newID \<le> ID (row_tx r)"
  by (induction txs arbitrary: newID) fastforce+

lemma distinct_newRows: "distinct (map (\<lambda>r. ID (row_tx r)) (newRows userID newID txs))"
proof (induction txs arbitrary: newID)
  case Nil
  show ?case by simp
next
  case (Cons tx rest)
  have "newID \<notin> (\<lambda>r. ID (row_tx r)) ` set (newRows userID (newID + 1) rest)"
    using IDs_newRows[of _ userID "newID + 1" rest] by fastforce
  with Cons show ?case by simp
qed

lemma distinctIDs_commit:
  assumes "distinctIDs db"
  shows "distinctIDs (db @ newRows userID (nextID db) txs)"
proof -
  have "(\<lambda>r. ID (row_tx r)) ` set db \<inter>
        (\<lambda>r. ID (row_tx r)) ` set (newRows userID (nextID db) txs) = {}"
    using ID_less_nextID[of _ db] IDs_newRows[of _ userID "nextID db" txs] by fastforce
  with assms show ?thesis
    by (simp add: distinctIDs_def distinct_newRows)
qed

lemma distinctIDs_ProcessUpload:
  assumes "distinctIDs db"
    and "ProcessUpload s faults fileReader userID db cache = (r, db', cache')"
  shows "distinctIDs db'"
  using ProcessUpload_cases[OF assms(2)] assms(1) distinctIDs_commit by blast



lemma reachable_cache_ok: "reachable s db cache \<Longrightarrow> cache_ok s db cache"
proof (induction rule: reachable.induct)
  case (start db)
  show ?case by (rule cache_ok_empty)
next
  case (upload db cache faults fileReader userID r db' cache')
  then show ?case by (blast intro: cache_ok_ProcessUpload)
next
  case (expire db cache key)
  then show ?case by (blast intro: cache_ok_delete)
qed (blast intro: cache_ok_GetLatestUploadResult cache_ok_GetDividendTaxSummary
       cache_ok_GetStockSaleDetails cache_ok_GetDividendTransactions cache_ok_GetStockHoldings
       cache_ok_GetOptionHoldings cache_ok_GetOptionSaleDetails)+






section \<open>Properties of the upload service\<close>

text \<open>
  C6. If the normalization of the raw transactions fails, \<open>ProcessUpload\<close> aborts the whole
  batch: it returns the error, the table is the one it started with (no transaction of the
  batch is stored), the cache is untouched and no result is produced.
\<close>

theorem normalization_failure_aborts:
  assumes "csvParser s fileReader = Inr rawTransactions"
    and "len rawTransactions \<noteq> 0"
    and "transactionProcessor s rawTransactions = Inl msg"
  shows "ProcessUpload s faults fileReader userID db cache =
           (Inl (ErrProcessingRaw userID msg), db, cache)"
  using assms by (simp add: ProcessUpload_def)

theorem normalization_failure_aborts_witness:
  "csvParser exampleService ''malformed'' = Inr (Slice [[''malformed'']]) \<and>
   len (Slice [[''malformed'']] :: RawTransaction slice) \<noteq> 0 \<and>
   transactionProcessor exampleService (Slice [[''malformed'']]) = Inl ''malformed record'' \<and>
   ProcessUpload exampleService noFaults ''malformed'' 7 [exampleRow] noCache =
     (Inl (ErrProcessingRaw 7 ''malformed record''), [exampleRow], noCache)"
  using normalization_failure_aborts[of exampleService "''malformed''"
      "Slice [[''malformed'']]" "''malformed record''" noFaults 7 "[exampleRow]" noCache]
  by (simp add: exampleService_def len_def)

text \<open>
  C7. Persisting the batch of \<open>ProcessUpload\<close> is all or nothing. When no step of the
  database transaction fails, the table gains every row of the batch, in order, and the
  call succeeds; when a step fails, the call returns an error and the table and the cache
  are unchanged. A failing insert and a failing commit return their own errors.
\<close>

theorem persist_atomic:
  assumes "csvParser s fileReader = Inr rawTransactions"
    and "len rawTransactions \<noteq> 0"
    and "transactionProcessor s rawTransactions = Inr processedTransactions"
    and "len processedTransactions \<noteq> 0"
  shows "(faultless faults (len processedTransactions) \<longrightarrow>
            (\<exists>result cache'. ProcessUpload s faults fileReader userID db cache =
               (Inr result,
                db @ newRows userID (nextID db) (elems processedTransactions), cache'))) \<and>
         (\<not> faultless faults (len processedTransactions) \<longrightarrow>
            (\<exists>err. ProcessUpload s faults fileReader userID db cache = (Inl err, db, cache))) \<and>
         (begin_fault faults = None \<and> prepare_fault faults = None \<and>
          exec_fault faults = Some (j, msg) \<and> j < len processedTransactions \<longrightarrow>
            ProcessUpload s faults fileReader userID db cache =
              (Inl (ErrInsert (OrderID (elems processedTransactions ! j)) msg), db, cache)) \<and>
         (faultless (faults\<lparr>commit_fault := None\<rparr>) (len processedTransactions) \<and>
          commit_fault faults = Some msg \<longrightarrow>
            ProcessUpload s faults fileReader userID db cache = (Inl (ErrCommit msg), db, cache))"
proof (intro conjI impI)
  assume "faultless faults (len processedTransactions)"
  then have "persistBatch faults db userID (elems processedTransactions) =
      (Inr (), db @ newRows userID (nextID db) (elems processedTransactions))"
    by (simp add: len_def persistBatch_faultless)
  with assms show "\<exists>result cache'. ProcessUpload s faults fileReader userID db cache =
               (Inr result,
                db @ newRows userID (nextID db) (elems processedTransactions), cache')"
    by (simp add: ProcessUpload_def Let_def split: prod.splits)
next
  assume "\<not> faultless faults (len processedTransactions)"
  then obtain err where
    "persistBatch faults db userID (elems processedTransactions) = (Inl err, db)"
    using persistBatch_fault[of faults "elems processedTransactions" db userID]
    by (auto simp: len_def)
  with assms show "\<exists>err. ProcessUpload s faults fileReader userID db cache = (Inl err, db, cache)"
    by (simp add: ProcessUpload_def)
next
  assume "begin_fault faults = None \<and> prepare_fault faults = None \<and>
          exec_fault faults = Some (j, msg) \<and> j < len processedTransactions"
  then have "persistBatch faults db userID (elems processedTransactions) =
      (Inl (ErrInsert (OrderID (elems processedTransactions ! j)) msg), db)"
    by (simp add: len_def persistBatch_insert_fault)
  with assms show "ProcessUpload s faults fileReader userID db cache =
      (Inl (ErrInsert (OrderID (elems processedTransactions ! j)) msg), db, cache)"
    by (simp add: ProcessUpload_def)
next
  assume "faultless (faults\<lparr>commit_fault := None\<rparr>) (len processedTransactions) \<and>
          commit_fault faults = Some msg"
  then have "persistBatch faults db userID (elems processedTransactions) =
      (Inl (ErrCommit msg), db)"
    by (simp add: len_def persistBatch_commit_fault)
  with assms show "ProcessUpload s faults fileReader userID db cache =
      (Inl (ErrCommit msg), db, cache)"
    by (simp add: ProcessUpload_def)
qed

theorem persist_atomic_witness:
  "csvParser exampleService ''rows'' = Inr (Slice [[''rows'']]) \<and>
   len (Slice [[''rows'']] :: RawTransaction slice) \<noteq> 0 \<and>
   transactionProcessor exampleService (Slice [[''rows'']]) =
     Inr (Slice [exampleBuy, exampleDividend, exampleDividendTax]) \<and>
   len (Slice [exampleBuy, exampleDividend, exampleDividendTax]) \<noteq> 0 \<and>
   faultless noFaults 3 \<and>
   (\<exists>result cache'. ProcessUpload exampleService noFaults ''rows'' 7 [exampleRow] noCache =
      (Inr result,
       [exampleRow] @ newRows 7 (nextID [exampleRow])
                        [exampleBuy, exampleDividend, exampleDividendTax], cache')) \<and>
   \<not> faultless (noFaults\<lparr>exec_fault := Some (1, ''disk full'')\<rparr>) 3 \<and>
   ProcessUpload exampleService (noFaults\<lparr>exec_fault := Some (1, ''disk full'')\<rparr>) ''rows'' 7
      [exampleRow] noCache =
     (Inl (ErrInsert (OrderID exampleDividend) ''disk full''), [exampleRow], noCache) \<and>
   ProcessUpload exampleService (noFaults\<lparr>commit_fault := Some ''busy''\<rparr>) ''rows'' 7
      [exampleRow] noCache =
     (Inl (ErrCommit ''busy''), [exampleRow], noCache)"
proof -
  have h: "csvParser exampleService ''rows'' = Inr (Slice [[''rows'']])"
    "len (Slice [[''rows'']] :: RawTransaction slice) \<noteq> 0"
    "transactionProcessor exampleService (Slice [[''rows'']]) =
       Inr (Slice [exampleBuy, exampleDividend, exampleDividendTax])"
    "len (Slice [exampleBuy, exampleDividend, exampleDividendTax]) \<noteq> 0"
    by (simp_all add: exampleService_def len_def)
  have f: "faultless noFaults 3"
    "\<not> faultless (noFaults\<lparr>exec_fault := Some (1, ''disk full'')\<rparr>) 3"
    "faultless (noFaults\<lparr>commit_fault := Some ''busy'', commit_fault := None\<rparr>) 3"
    by (simp_all add: faultless_def noFaults_def)
  have l: "len (Slice [exampleBuy, exampleDividend, exampleDividendTax]) = 3"
    by (simp add: len_def)
  from persist_atomic[OF h, where faults=noFaults and userID=7 and db="[exampleRow]"
      and cache=noCache] f l
  have 1: "\<exists>result cache'. ProcessUpload exampleService noFaults ''rows'' 7 [exampleRow] noCache =
      (Inr result,
       [exampleRow] @ newRows 7 (nextID [exampleRow])
                        [exampleBuy, exampleDividend, exampleDividendTax], cache')"
    by simp
  from persist_atomic[OF h, where faults="noFaults\<lparr>exec_fault := Some (1, ''disk full'')\<rparr>"
      and j=1 and msg="''disk full''" and userID=7 and db="[exampleRow]" and cache=noCache] l
  have 2: "ProcessUpload exampleService (noFaults\<lparr>exec_fault := Some (1, ''disk full'')\<rparr>)
      ''rows'' 7 [exampleRow] noCache =
     (Inl (ErrInsert (OrderID exampleDividend) ''disk full''), [exampleRow], noCache)"
    by (simp add: noFaults_def)
  from persist_atomic[OF h, where faults="noFaults\<lparr>commit_fault := Some ''busy''\<rparr>"
      and msg="''busy''" and userID=7 and db="[exampleRow]" and cache=noCache] f l
  have 3: "ProcessUpload exampleService (noFaults\<lparr>commit_fault := Some ''busy''\<rparr>) ''rows'' 7
      [exampleRow] noCache = (Inl (ErrCommit ''busy''), [exampleRow], noCache)"
    by simp
  from h f 1 2 3 show ?thesis by simp
qed

text \<open>
  C5. The empty transaction sequence gives the empty report and no error. \<open>ProcessUpload\<close>
  on a file that parses to zero raw transactions returns the empty result and leaves table
  and cache as they were; \<open>GetLatestUploadResult\<close> for a user without stored transactions
  returns the empty result (in a reachable state, the table being readable). Every
  collection of the empty result is an empty slice that is not nil.
\<close>

theorem empty_input_report:
  "(csvParser s fileReader = Inr rawTransactions \<and> len rawTransactions = 0 \<longrightarrow>
      ProcessUpload s faults fileReader userID db cache = (Inr emptyUploadResult, db, cache)) \<and>
   (reachable s db cache \<and> rowsOfUser db userID = [] \<longrightarrow>
      fst (GetLatestUploadResult s None db cache userID) = Inr emptyUploadResult) \<and>
   StockSaleDetails emptyUploadResult = Slice [] \<and>
   StockHoldings emptyUploadResult = Slice [] \<and>
   OptionSaleDetails emptyUploadResult = Slice [] \<and>
   OptionHoldings emptyUploadResult = Slice [] \<and>
   CashMovements emptyUploadResult = Slice [] \<and>
   DividendTransactionsList emptyUploadResult = Slice []"
proof (intro conjI impI)
  assume "csvParser s fileReader = Inr rawTransactions \<and> len rawTransactions = 0"
  then show "ProcessUpload s faults fileReader userID db cache = (Inr emptyUploadResult, db, cache)"
    by (simp add: ProcessUpload_def)
next
  assume a: "reachable s db cache \<and> rowsOfUser db userID = []"
  then have "queryRows db userID = []" by (simp add: queryRows_def rowsOfUser_def)
  then have n: "fst (GetLatestUploadResult s None db noCache userID) = Inr emptyUploadResult"
    by (simp add: GetLatestUploadResult_def fetch_None noCache_def len_def)
  show "fst (GetLatestUploadResult s None db cache userID) = Inr emptyUploadResult"
  proof (cases "asUploadResult (cache (Sprintf ckLatestUploadResult userID))")
    case None
    with n show ?thesis by (simp add: getters_miss(1))
  next
    case (Some v)
    moreover from a have "cache_ok s db cache" by (simp add: reachable_cache_ok)
    ultimately have "fst (GetLatestUploadResult s None db noCache userID) = Inr v"
      unfolding cache_ok_def by blast
    with n Some show ?thesis by (simp add: getters_hit(1))
  qed
qed (simp_all add: emptyUploadResult_def)

theorem empty_input_report_witness:
  "csvParser exampleService [] = Inr (Slice []) \<and> len (Slice [] :: RawTransaction slice) = 0 \<and>
   ProcessUpload exampleService noFaults [] 7 [exampleRow] noCache =
     (Inr emptyUploadResult, [exampleRow], noCache) \<and>
   reachable exampleService [exampleRow]
     (snd (GetLatestUploadResult exampleService None [exampleRow] noCache 8)) \<and>
   rowsOfUser [exampleRow] 8 = [] \<and>
   fst (GetLatestUploadResult exampleService None [exampleRow]
          (snd (GetLatestUploadResult exampleService None [exampleRow] noCache 8)) 8) =
     Inr emptyUploadResult"
proof -
  have p: "csvParser exampleService [] = Inr (Slice [])"
    "len (Slice [] :: RawTransaction slice) = 0"
    by (simp_all add: exampleService_def len_def)
  have ok: "reachable exampleService [exampleRow]
     (snd (GetLatestUploadResult exampleService None [exampleRow] noCache 8))"
    by (rule reachable.getLatestUploadResult[OF reachable.start])
  have r: "rowsOfUser [exampleRow] 8 = []"
    by (simp add: rowsOfUser_def exampleRow_def)
  from empty_input_report[where s=exampleService and fileReader="[]"
      and rawTransactions="Slice []" and faults=noFaults and userID=7 and db="[exampleRow]"
      and cache=noCache]
    empty_input_report[where s=exampleService and db="[exampleRow]" and userID=8 and
      cache="snd (GetLatestUploadResult exampleService None [exampleRow] noCache 8)"]
    p ok r
  show ?thesis by simp
qed

text \<open>
  C8. The report cache is advisory: in every state the service can reach, and with the
  table readable, each of the seven getters returns the value it returns when the cache
  finds nothing.
\<close>

theorem cache_advisory:
  assumes "reachable s db cache"
  shows "fst (GetLatestUploadResult s None db cache userID) =
           fst (GetLatestUploadResult s None db noCache userID) \<and>
         fst (GetStockSaleDetails s None db cache userID) =
           fst (GetStockSaleDetails s None db noCache userID) \<and>
         fst (GetStockHoldings s None db cache userID) =
           fst (GetStockHoldings s None db noCache userID) \<and>
         fst (GetOptionHoldings s None db cache userID) =
           fst (GetOptionHoldings s None db noCache userID) \<and>
         fst (GetOptionSaleDetails s None db cache userID) =
           fst (GetOptionSaleDetails s None db noCache userID) \<and>
         fst (GetDividendTaxSummary s None db cache userID) =
           fst (GetDividendTaxSummary s None db noCache userID) \<and>
         fst (GetDividendTransactions s None db cache userID) =
           fst (GetDividendTransactions s None db noCache userID)"
proof (intro conjI)
  note ok = reachable_cache_ok[OF assms]
  show "fst (GetLatestUploadResult s None db cache userID) =
        fst (GetLatestUploadResult s None db noCache userID)"
  proof (cases "asUploadResult (cache (Sprintf ckLatestUploadResult userID))")
    case None
    then show ?thesis by (rule getters_miss)
  next
    case (Some v)
    with ok have "fst (GetLatestUploadResult s None db noCache userID) = Inr v"
      unfolding cache_ok_def by blast
    with Some show ?thesis by (simp add: getters_hit)
  qed
  show "fst (GetStockSaleDetails s None db cache userID) =
        fst (GetStockSaleDetails s None db noCache userID)"
  proof (cases "asSaleDetails (cache (Sprintf ckStockSales userID))")
    case None
    then show ?thesis by (rule getters_miss)
  next
    case (Some v)
    with ok have "fst (GetStockSaleDetails s None db noCache userID) = Inr v"
      unfolding cache_ok_def by blast
    with Some show ?thesis by (simp add: getters_hit)
  qed
  show "fst (GetStockHoldings s None db cache userID) =
        fst (GetStockHoldings s None db noCache userID)"
  proof (cases "asPurchaseLots (cache (Sprintf ckStockHoldings userID))")
    case None
    then show ?thesis by (rule getters_miss)
  next
    case (Some v)
    with ok have "fst (GetStockHoldings s None db noCache userID) = Inr v"
      unfolding cache_ok_def by blast
    with Some show ?thesis by (simp add: getters_hit)
  qed
  show "fst (GetOptionHoldings s None db cache userID) =
        fst (GetOptionHoldings s None db noCache userID)"
  proof (cases "asOptionHoldings (cache (Sprintf ckOptionHoldings userID))")
    case None
    then show ?thesis by (rule getters_miss)
  next
    case (Some v)
    with ok have "fst (GetOptionHoldings s None db noCache userID) = Inr v"
      unfolding cache_ok_def by blast
    with Some show ?thesis by (simp add: getters_hit)
  qed
  show "fst (GetOptionSaleDetails s None db cache userID) =
        fst (GetOptionSaleDetails s None db noCache userID)"
  proof (cases "asOptionSaleDetails (cache (Sprintf ckOptionSales userID))")
    case None
    then show ?thesis by (rule getters_miss)
  next
    case (Some v)
    with ok have "fst (GetOptionSaleDetails s None db noCache userID) = Inr v"
      unfolding cache_ok_def by blast
    with Some show ?thesis by (simp add: getters_hit)
  qed
  show "fst (GetDividendTaxSummary s None db cache userID) =
        fst (GetDividendTaxSummary s None db noCache userID)"
  proof (cases "asDividendTaxResult (cache (Sprintf ckDividendSummary userID))")
    case None
    then show ?thesis by (rule getters_miss)
  next
    case (Some v)
    with ok have "fst (GetDividendTaxSummary s None db noCache userID) = Inr v"
      unfolding cache_ok_def by blast
    with Some show ?thesis by (simp add: getters_hit)
  qed
  show "fst (GetDividendTransactions s None db cache userID) =
        fst (GetDividendTransactions s None db noCache userID)"
  proof (cases "asTransactions (cache (Sprintf ckDividendTxns userID))")
    case None
    then show ?thesis by (rule getters_miss)
  next
    case (Some v)
    with ok have "fst (GetDividendTransactions s None db noCache userID) = Inr v"
      unfolding cache_ok_def by blast
    with Some show ?thesis by (simp add: getters_hit)
  qed
qed

theorem cache_advisory_witness:
  "reachable exampleService [exampleRow]
     (snd (GetDividendTransactions exampleService None [exampleRow] noCache 7)) \<and>
   snd (GetDividendTransactions exampleService None [exampleRow] noCache 7)
     (Sprintf ckDividendTxns 7) = Some (CachedTransactions (Slice [row_tx exampleRow])) \<and>
   fst (GetDividendTransactions exampleService None [exampleRow]
          (snd (GetDividendTransactions exampleService None [exampleRow] noCache 7)) 7) =
   fst (GetDividendTransactions exampleService None [exampleRow] noCache 7) \<and>
   fst (GetLatestUploadResult exampleService None [exampleRow]
          (snd (GetDividendTransactions exampleService None [exampleRow] noCache 7)) 7) =
   fst (GetLatestUploadResult exampleService None [exampleRow] noCache 7)"
proof -
  have ok: "reachable exampleService [exampleRow]
     (snd (GetDividendTransactions exampleService None [exampleRow] noCache 7))"
    by (rule reachable.getDividendTransactions[OF reachable.start])
  have q: "queryRows [exampleRow] 7 = [row_tx exampleRow]"
    by (simp add: queryRows_def exampleRow_def)
  have d: "isDividendOrTax (row_tx exampleRow)"
    by (simp add: isDividendOrTax_def exampleRow_def exampleDividendTax_def ToLower_examples)
  have e: "snd (GetDividendTransactions exampleService None [exampleRow] noCache 7)
     (Sprintf ckDividendTxns 7) = Some (CachedTransactions (Slice [row_tx exampleRow]))"
    by (simp add: GetDividendTransactions_def fetch_None q noCache_def len_def d Let_def
          append_slice_def)
  from cache_advisory[OF ok, of 7] ok e show ?thesis by simp
qed






section \<open>Facts about the lot matchers\<close>





lemma consumeLots_empty_queue:
  "0 < q \<Longrightarrow> consumeLots sale q [] = ([disposal sale (Date sale) q 0 True], [])"
  by simp











section \<open>Properties of the engine of the specification\<close>








end
